theory Spec2Isabelle
  imports Complex_Main
begin

section \<open>Vectors and quaternions (the three.js operations the portal code calls)\<close>

text \<open>
  JavaScript numbers are modelled as real numbers: every statement below is about exact
  arithmetic.  The operations of \<^verbatim>\<open>THREE.Vector3\<close> and \<^verbatim>\<open>THREE.Quaternion\<close> that the portal
  code calls are written out as the library computes them, component by component.
\<close>

datatype Vector3 = Vector3 (v_x: real) (v_y: real) (v_z: real)

datatype Quaternion = Quaternion (q_x: real) (q_y: real) (q_z: real) (q_w: real)

datatype Euler = Euler (e_x: real) (e_y: real) (e_z: real)

fun sub :: "Vector3 \<Rightarrow> Vector3 \<Rightarrow> Vector3" where
  "sub (Vector3 ax ay az) (Vector3 bx by bz) = Vector3 (ax - bx) (ay - by) (az - bz)"

fun add :: "Vector3 \<Rightarrow> Vector3 \<Rightarrow> Vector3" where
  "add (Vector3 ax ay az) (Vector3 bx by bz) = Vector3 (ax + bx) (ay + by) (az + bz)"

fun dot :: "Vector3 \<Rightarrow> Vector3 \<Rightarrow> real" where
  "dot (Vector3 ax ay az) (Vector3 bx by bz) = ax * bx + ay * by + az * bz"

fun multiplyScalar :: "Vector3 \<Rightarrow> real \<Rightarrow> Vector3" where
  "multiplyScalar (Vector3 ax ay az) s = Vector3 (ax * s) (ay * s) (az * s)"

text \<open>\<^verbatim>\<open>Vector3.length\<close>: the square root of the sum of the squared components.\<close>

fun length_v :: "Vector3 \<Rightarrow> real" where
  "length_v (Vector3 ax ay az) = sqrt (ax * ax + ay * ay + az * az)"

text \<open>
  \<^verbatim>\<open>Vector3.applyQuaternion\<close>: \<open>t = 2 (q.xyz \<times> v)\<close>, result \<open>v + q.w t + q.xyz \<times> t\<close>.
  The library assumes a quaternion of unit length and does not normalise.
\<close>

fun applyQuaternion :: "Vector3 \<Rightarrow> Quaternion \<Rightarrow> Vector3" where
  "applyQuaternion (Vector3 vx vy vz) (Quaternion qx qy qz qw) =
     (let tx = 2 * (qy * vz - qz * vy);
          ty = 2 * (qz * vx - qx * vz);
          tz = 2 * (qx * vy - qy * vx)
      in Vector3 (vx + qw * tx + qy * tz - qz * ty)
                 (vy + qw * ty + qz * tx - qx * tz)
                 (vz + qw * tz + qx * ty - qy * tx))"

text \<open>\<^verbatim>\<open>Quaternion.invert\<close> is the conjugate (the library assumes unit length).\<close>

fun invert :: "Quaternion \<Rightarrow> Quaternion" where
  "invert (Quaternion qx qy qz qw) = Quaternion (- qx) (- qy) (- qz) qw"

text \<open>\<^verbatim>\<open>a.multiply(b)\<close>: the Hamilton product \<open>a b\<close>.\<close>

fun multiply :: "Quaternion \<Rightarrow> Quaternion \<Rightarrow> Quaternion" where
  "multiply (Quaternion ax ay az aw) (Quaternion bx by bz bw) =
     Quaternion (ax * bw + aw * bx + ay * bz - az * by)
                (ay * bw + aw * by + az * bx - ax * bz)
                (az * bw + aw * bz + ax * by - ay * bx)
                (aw * bw - ax * bx - ay * by - az * bz)"

fun setFromAxisAngle :: "Vector3 \<Rightarrow> real \<Rightarrow> Quaternion" where
  "setFromAxisAngle (Vector3 ax ay az) angle =
     (let halfAngle = angle / 2; s = sin halfAngle
      in Quaternion (ax * s) (ay * s) (az * s) (cos halfAngle))"

text \<open>\<^verbatim>\<open>Quaternion.setFromEuler\<close> for the default rotation order \<^verbatim>\<open>XYZ\<close>.\<close>

fun setFromEuler :: "Euler \<Rightarrow> Quaternion" where
  "setFromEuler (Euler ex ey ez) =
     (let c1 = cos (ex / 2); c2 = cos (ey / 2); c3 = cos (ez / 2);
          s1 = sin (ex / 2); s2 = sin (ey / 2); s3 = sin (ez / 2)
      in Quaternion (s1 * c2 * c3 + c1 * s2 * s3)
                    (c1 * s2 * c3 - s1 * c2 * s3)
                    (c1 * c2 * s3 + s1 * s2 * c3)
                    (c1 * c2 * c3 - s1 * s2 * s3))"

definition identityQ :: Quaternion where
  "identityQ = Quaternion 0 0 0 1"

text \<open>A quaternion is a unit quaternion when its squared norm is one.\<close>

fun lengthSq_q :: "Quaternion \<Rightarrow> real" where
  "lengthSq_q (Quaternion qx qy qz qw) = qx * qx + qy * qy + qz * qz + qw * qw"

definition unitQ :: "Quaternion \<Rightarrow> bool" where
  "unitQ q \<longleftrightarrow> lengthSq_q q = 1"

section \<open>PortalUtils.ts: the transforms through a portal pair\<close>

record pose =
  position :: Vector3
  quaternion :: Quaternion

text \<open>The assignment pair \<^verbatim>\<open>v.x = -v.x; v.z = -v.z\<close>.\<close>

fun negateXZ :: "Vector3 \<Rightarrow> Vector3" where
  "negateXZ (Vector3 vx vy vz) = Vector3 (- vx) vy (- vz)"

definition transformPointThroughPortal ::
  "Vector3 \<Rightarrow> 'a pose_scheme \<Rightarrow> 'b pose_scheme \<Rightarrow> Vector3" where
  "transformPointThroughPortal point sourcePortal destPortal =
     (let relativePos = sub point (position sourcePortal);
          srcInverse = invert (quaternion sourcePortal);
          relativePos = applyQuaternion relativePos srcInverse;
          relativePos = negateXZ relativePos;
          relativePos = applyQuaternion relativePos (quaternion destPortal)
      in add relativePos (position destPortal))"

definition transformDirectionThroughPortal ::
  "Vector3 \<Rightarrow> 'a pose_scheme \<Rightarrow> 'b pose_scheme \<Rightarrow> Vector3" where
  "transformDirectionThroughPortal direction sourcePortal destPortal =
     (let result = direction;
          srcInverse = invert (quaternion sourcePortal);
          result = applyQuaternion result srcInverse;
          result = negateXZ result
      in applyQuaternion result (quaternion destPortal))"

datatype Plane = Plane (plane_normal: Vector3) (plane_constant: real)

text \<open>\<^verbatim>\<open>Plane.distanceToPoint\<close>: \<open>normal \<cdot> point + constant\<close>.\<close>

fun distanceToPoint :: "Plane \<Rightarrow> Vector3 \<Rightarrow> real" where
  "distanceToPoint (Plane n c) point = dot n point + c"

record crossing_state =
  crossing :: bool
  signedDistance :: real
  inFront :: real
  behind :: real

definition getPortalCrossingState :: "Vector3 \<Rightarrow> real \<Rightarrow> Plane \<Rightarrow> crossing_state" where
  "getPortalCrossingState objectPosition objectRadius portalPlane =
     (let sd = distanceToPoint portalPlane objectPosition
      in \<lparr> crossing = (sd > - objectRadius \<and> sd < objectRadius),
           signedDistance = sd,
           inFront = max 0 (sd + objectRadius),
           behind = max 0 (- sd + objectRadius) \<rparr>)"

section \<open>Portal.ts: the portal entity\<close>

text \<open>
  Portals are objects compared by identity and linked to each other, so they live in a store:
  an address is a natural number and the store gives the object at every address.  The
  fields are those of the class; \<open>normal\<close> is the cached \<^verbatim>\<open>_normal\<close> and \<open>mesh_parent\<close> the
  \<^verbatim>\<open>parent\<close> of the mask mesh (the address of a scene or of another container).  The mask
  mesh and its stencil material belong to one portal each and are named after its address
  (see \<open>PortalMesh\<close> and \<open>StencilMaterialOf\<close> below).
\<close>

type_synonym addr = nat

record portal = pose +
  portal_id :: string
  width :: real
  height :: real
  linkedPortal :: "addr option"
  scene :: "addr option"
  normal :: Vector3
  mesh_parent :: "addr option"

type_synonym portal_store = "addr \<Rightarrow> portal"

text \<open>The constructor: the orientation comes from the optional Euler angles.\<close>

definition newPortal :: "string \<Rightarrow> real \<Rightarrow> real \<Rightarrow> Vector3 \<Rightarrow> Euler option \<Rightarrow> portal" where
  "newPortal ident w h pos rotation =
     (let q = (case rotation of None \<Rightarrow> identityQ | Some e \<Rightarrow> setFromEuler e)
      in \<lparr> position = pos, quaternion = q, portal_id = ident, width = w, height = h,
           linkedPortal = None, scene = None,
           normal = applyQuaternion (Vector3 0 0 1) q,
           mesh_parent = None \<rparr>)"

text \<open>
  \<^verbatim>\<open>link\<close> sets this side and calls itself on the other side unless that side already points
  back.  The second call never recurses again, which is the termination argument.
\<close>

function link :: "portal_store \<Rightarrow> addr \<Rightarrow> addr \<Rightarrow> portal_store" where
  "link st this other =
     (let st1 = st(this := (st this)\<lparr>linkedPortal := Some other\<rparr>)
      in if linkedPortal (st1 other) \<noteq> Some this then link st1 other this else st1)"
  by pat_completeness auto
termination
  by (relation "measure (\<lambda>(st, this, other).
        if linkedPortal ((st(this := (st this)\<lparr>linkedPortal := Some other\<rparr>)) other) = Some this
        then 0 else 1)") (auto split: if_splits)

definition getPlane :: "portal \<Rightarrow> Plane" where
  "getPlane p = Plane (normal p) (- dot (position p) (normal p))"

definition flipY :: Quaternion where
  "flipY = setFromAxisAngle (Vector3 0 1 0) pi"

definition getDestinationCameraTransform ::
  "portal_store \<Rightarrow> addr \<Rightarrow> Vector3 \<Rightarrow> Quaternion \<Rightarrow> pose" where
  "getDestinationCameraTransform st this viewerPosition viewerQuaternion =
     (case linkedPortal (st this) of
        None \<Rightarrow> \<lparr> position = viewerPosition, quaternion = viewerQuaternion \<rparr>
      | Some d \<Rightarrow>
          (let dest = st d;
               relativePos = sub viewerPosition (position (st this));
               srcInverse = invert (quaternion (st this));
               relativePos = applyQuaternion relativePos srcInverse;
               relativePos = negateXZ relativePos;
               relativePos = applyQuaternion relativePos (quaternion dest);
               destPosition = add relativePos (position dest);
               destQuaternion =
                 multiply (multiply (multiply (quaternion dest) flipY) srcInverse) viewerQuaternion
           in \<lparr> position = destPosition, quaternion = destQuaternion \<rparr>))"

definition isPointInFront :: "portal \<Rightarrow> Vector3 \<Rightarrow> bool" where
  "isPointInFront p point = (dot (sub point (position p)) (normal p) > 0)"

text \<open>
  The five steps of the specification, in its own words: the rotation by a quaternion is
  \<open>applyQuaternion\<close>, the composition of orientations is the quaternion product (written
  here from the right, as a composition is read), and the half turn about the vertical axis
  is the quaternion \<open>(0, 1, 0, 0)\<close>.
\<close>

definition spec_destination_transform ::
  "portal \<Rightarrow> portal \<Rightarrow> Vector3 \<Rightarrow> Quaternion \<Rightarrow> pose" where
  "spec_destination_transform thisPortal destination viewerPosition viewerOrientation =
     (let rel1 = sub viewerPosition (position thisPortal);
          rel2 = applyQuaternion rel1 (invert (quaternion thisPortal));
          rel3 = Vector3 (- v_x rel2) (v_y rel2) (- v_z rel2);
          destPos = add (applyQuaternion rel3 (quaternion destination)) (position destination);
          destOri = multiply (quaternion destination)
                      (multiply (Quaternion 0 1 0 0)
                         (multiply (invert (quaternion thisPortal)) viewerOrientation))
      in \<lparr> position = destPos, quaternion = destOri \<rparr>)"

text \<open>The concrete scenario: portal A at address 0, portal B at address 1, linked by \<^verbatim>\<open>A.link(B)\<close>.\<close>

definition scenarioA :: portal where
  "scenarioA = newPortal ''A'' 1 2 (Vector3 0 0 0) None"

definition scenarioB :: portal where
  "scenarioB = newPortal ''B'' 1 2 (Vector3 0 0 10) (Some (Euler 0 pi 0))"

definition scenario_store :: portal_store where
  "scenario_store = link ((\<lambda>_. scenarioA)(1 := scenarioB)) 0 1"

section \<open>PortalRenderer: the stencil passes\<close>

text \<open>
  The renderer is modelled by explicit state passing.  The state holds what the passes
  mutate: the \<^verbatim>\<open>autoClear\<close> flag, the pose of the one shared \<^verbatim>\<open>_portalCamera\<close>, the portal
  objects (for the parent of their mask mesh), the child lists of the scenes, the stencil
  fields of the materials, and the sequence of calls made on the underlying renderer.
  The scene graph is flat: the objects of a scene are its children.  The projection matrix
  of the portal camera is written by the passes but never read by their control flow, so a
  camera is its pose here; the projection itself is the subject of a later section.
  Recursion depths, stencil reference values and \<^verbatim>\<open>maxRecursion\<close> are natural numbers.
\<close>

datatype StencilFunc = AlwaysStencilFunc | EqualStencilFunc | NotEqualStencilFunc

record material =
  stencilWrite :: bool
  stencilFunc :: StencilFunc
  stencilRef :: nat

datatype mat_ref = StencilMaterialOf addr | Mat nat

datatype object3d = PortalMesh addr | Mesh nat "mat_ref list" | Object3D nat

text \<open>The materials a scene traversal visits on an object: those of meshes only.\<close>

fun materials_of :: "object3d \<Rightarrow> mat_ref list" where
  "materials_of (PortalMesh a) = [StencilMaterialOf a]"
| "materials_of (Mesh k ms) = ms"
| "materials_of (Object3D k) = []"

text \<open>
  A call on the underlying renderer.  A draw records the scene, the camera pose at the time
  of the call, and the stencil state it is drawn with: for the mask draw of
  \<^verbatim>\<open>_renderPortalStencil\<close> the children of the scene and the reference value of the mask
  material, for the draw of \<^verbatim>\<open>_renderSceneWithStencilTest\<close> the materials of the scene as they
  are during the draw, and the reference value and the test passed to it.
\<close>

datatype renderer_call =
    Clear bool bool bool
  | MaskDraw addr "object3d list" pose nat
  | SceneDraw addr "material list" pose nat StencilFunc

record PortalWorld =
  world_scene :: addr
  world_portals :: "addr list"

record render_state =
  autoClear :: bool
  portalCamera :: pose
  portals :: portal_store
  children :: "addr \<Rightarrow> object3d list"
  materials :: "mat_ref \<Rightarrow> material"
  calls :: "renderer_call list"

text \<open>The inputs of one frame that the passes only read.\<close>

record frame =
  maxRecursion :: nat
  mainCamera :: pose
  allWorlds :: "(string \<times> PortalWorld) list"

text \<open>The constructor option \<^verbatim>\<open>maxRecursion ?? 1\<close>.\<close>

definition maxRecursion_option :: "nat option \<Rightarrow> nat" where
  "maxRecursion_option opt = (case opt of None \<Rightarrow> 1 | Some n \<Rightarrow> n)"

text \<open>
  The \<^verbatim>\<open>camera\<close> parameter of \<^verbatim>\<open>_renderPortals\<close> is a reference: at depth 0 it is the caller's
  camera, in every nested call it is the shared \<^verbatim>\<open>_portalCamera\<close> itself, so that its pose
  is read from the state at the moment of each use.
\<close>

datatype camera_ref = MainCamera | PortalCamera

fun camera_of :: "frame \<Rightarrow> camera_ref \<Rightarrow> render_state \<Rightarrow> pose" where
  "camera_of fr MainCamera st = mainCamera fr"
| "camera_of fr PortalCamera st = portalCamera st"

text \<open>
  \<^verbatim>\<open>Object3D.remove\<close> and \<^verbatim>\<open>Object3D.add\<close> of three.js, for the mask mesh of the portal at
  address \<open>a\<close>: \<^verbatim>\<open>remove\<close> deletes the first occurrence in the child list and clears the parent
  when the mesh is a child; \<^verbatim>\<open>add\<close> first removes the mesh from its present parent, then
  sets the parent and pushes the mesh at the end of the child list.
\<close>

definition remove_mesh :: "render_state \<Rightarrow> addr \<Rightarrow> addr \<Rightarrow> render_state" where
  "remove_mesh st container a =
     (if PortalMesh a \<in> set (children st container)
      then st\<lparr> portals := (portals st)(a := (portals st a)\<lparr>mesh_parent := None\<rparr>),
               children := (children st)(container := remove1 (PortalMesh a) (children st container)) \<rparr>
      else st)"

definition add_mesh :: "render_state \<Rightarrow> addr \<Rightarrow> addr \<Rightarrow> render_state" where
  "add_mesh st container a =
     (let st1 = (case mesh_parent (portals st a) of
                   None \<Rightarrow> st
                 | Some old \<Rightarrow> remove_mesh st old a)
      in st1\<lparr> portals := (portals st1)(a := (portals st1 a)\<lparr>mesh_parent := Some container\<rparr>),
              children := (children st1)(container := children st1 container @ [PortalMesh a]) \<rparr>)"

definition renderPortalStencil :: "render_state \<Rightarrow> addr \<Rightarrow> pose \<Rightarrow> nat \<Rightarrow> render_state" where
  "renderPortalStencil st p camera stencilValue =
     (let mat = StencilMaterialOf p;
          st1 = st\<lparr> materials := (materials st)(mat := (materials st mat)\<lparr>stencilRef := stencilValue\<rparr>) \<rparr>
      in case scene (portals st1 p) of
           None \<Rightarrow> st1
         | Some sc \<Rightarrow>
             (let wasInScene = (mesh_parent (portals st1 p) = Some sc);
                  st2 = (if \<not> wasInScene then add_mesh st1 sc p else st1);
                  st3 = st2\<lparr> calls := calls st2 @
                          [MaskDraw sc (children st2 sc) camera
                             (stencilRef (materials st2 mat))] \<rparr>
              in if \<not> wasInScene then remove_mesh st3 sc p else st3))"

text \<open>The two traversals of \<^verbatim>\<open>_renderSceneWithStencilTest\<close>, material by material.\<close>

definition scene_materials :: "render_state \<Rightarrow> addr \<Rightarrow> mat_ref list" where
  "scene_materials st sc = concat (map materials_of (children st sc))"

definition apply_stencil_test ::
  "nat \<Rightarrow> StencilFunc \<Rightarrow> (mat_ref \<Rightarrow> material) \<Rightarrow> mat_ref \<Rightarrow> (mat_ref \<Rightarrow> material)" where
  "apply_stencil_test sref func ms m =
     ms(m := (ms m)\<lparr> stencilWrite := False, stencilFunc := func, stencilRef := sref \<rparr>)"

definition reset_stencil_test :: "(mat_ref \<Rightarrow> material) \<Rightarrow> mat_ref \<Rightarrow> (mat_ref \<Rightarrow> material)" where
  "reset_stencil_test ms m =
     ms(m := (ms m)\<lparr> stencilWrite := False, stencilFunc := AlwaysStencilFunc \<rparr>)"

definition renderSceneWithStencilTest ::
  "render_state \<Rightarrow> pose \<Rightarrow> addr \<Rightarrow> nat \<Rightarrow> StencilFunc \<Rightarrow> render_state" where
  "renderSceneWithStencilTest st camera sc sref func =
     (let st1 = st\<lparr> materials :=
                   foldl (apply_stencil_test sref func) (materials st) (scene_materials st sc) \<rparr>;
          st2 = st1\<lparr> calls := calls st1 @
                  [SceneDraw sc (map (materials st1) (scene_materials st1 sc)) camera sref func] \<rparr>
      in st2\<lparr> materials := foldl reset_stencil_test (materials st2) (scene_materials st2 sc) \<rparr>)"

definition renderWorldWithStencil ::
  "render_state \<Rightarrow> pose \<Rightarrow> addr \<Rightarrow> nat \<Rightarrow> StencilFunc \<Rightarrow> render_state" where
  "renderWorldWithStencil st camera sc sref func =
     renderSceneWithStencilTest st camera sc sref func"

text \<open>The search for the destination world: the first world whose portals include the portal.\<close>

fun findDestWorld :: "(string \<times> PortalWorld) list \<Rightarrow> addr \<Rightarrow> PortalWorld option" where
  "findDestWorld [] destPortal = None"
| "findDestWorld ((k, world) # rest) destPortal =
     (if destPortal \<in> set (world_portals world) then Some world
      else findDestWorld rest destPortal)"

text \<open>
  \<^verbatim>\<open>_renderPortals\<close>: the depth test at entry, then the loop over the portals of the world,
  with the nested call in the middle of the loop body.
\<close>

function renderPortals ::
    "frame \<Rightarrow> camera_ref \<Rightarrow> PortalWorld \<Rightarrow> nat \<Rightarrow> render_state \<Rightarrow> render_state"
  and renderPortals_loop ::
    "frame \<Rightarrow> camera_ref \<Rightarrow> addr list \<Rightarrow> nat \<Rightarrow> render_state \<Rightarrow> render_state" where
  "renderPortals fr camera currentWorld depth st =
     (if depth \<ge> maxRecursion fr then st
      else renderPortals_loop fr camera (world_portals currentWorld) depth st)"
| "renderPortals_loop fr camera [] depth st = st"
| "renderPortals_loop fr camera (p # ps) depth st =
     (case linkedPortal (portals st p) of
        None \<Rightarrow> renderPortals_loop fr camera ps depth st
      | Some destPortal \<Rightarrow>
          if \<not> isPointInFront (portals st p) (position (camera_of fr camera st))
          then renderPortals_loop fr camera ps depth st
          else (case findDestWorld (allWorlds fr) destPortal of
                  None \<Rightarrow> renderPortals_loop fr camera ps depth st
                | Some destWorld \<Rightarrow>
                    (let st1 = renderPortalStencil st p (camera_of fr camera st) (depth + 1);
                         destTransform = getDestinationCameraTransform (portals st1) p
                            (position (camera_of fr camera st1))
                            (quaternion (camera_of fr camera st1));
                         st2 = st1\<lparr> portalCamera := destTransform \<rparr>;
                         st3 = renderPortals fr PortalCamera destWorld (depth + 1) st2;
                         st4 = renderSceneWithStencilTest st3 (portalCamera st3)
                                 (world_scene destWorld) (depth + 1) EqualStencilFunc
                     in renderPortals_loop fr camera ps depth st4)))"
  by pat_completeness auto
termination
  by (relation "inv_image (less_than <*lex*> less_than)
        (\<lambda>x. case x of
           Inl (fr, camera, w, depth, st) \<Rightarrow>
             (if depth \<ge> maxRecursion fr then 0 else 2 * (maxRecursion fr - depth), 0)
         | Inr (fr, camera, ps, depth, st) \<Rightarrow>
             (if depth \<ge> maxRecursion fr then 1 else 2 * (maxRecursion fr - depth) - 1,
              length ps))")
     auto

definition render :: "frame \<Rightarrow> PortalWorld \<Rightarrow> render_state \<Rightarrow> render_state" where
  "render fr currentWorld st =
     (let originalAutoClear = autoClear st;
          st1 = st\<lparr> autoClear := False \<rparr>;
          st2 = st1\<lparr> calls := calls st1 @ [Clear True True True] \<rparr>;
          st3 = renderPortals fr MainCamera currentWorld 0 st2;
          st4 = renderWorldWithStencil st3 (mainCamera fr) (world_scene currentWorld) 0
                  NotEqualStencilFunc
      in st4\<lparr> autoClear := originalAutoClear \<rparr>)"

text \<open>
  \<^verbatim>\<open>renderSimple\<close>, the single-pair entry point: camera, current scene, destination scene and
  the portal (by address).
\<close>

definition renderSimple :: "pose \<Rightarrow> addr \<Rightarrow> addr \<Rightarrow> addr \<Rightarrow> render_state \<Rightarrow> render_state" where
  "renderSimple camera currentScene destinationScene p st =
     (let originalAutoClear = autoClear st;
          st1 = st\<lparr> autoClear := False \<rparr>;
          st2 = st1\<lparr> calls := calls st1 @ [Clear True True True] \<rparr>;
          st3 = (case linkedPortal (portals st2 p) of
                   None \<Rightarrow> st2
                 | Some destPortal \<Rightarrow>
                     (let sa = renderPortalStencil st2 p camera 1;
                          destTransform = getDestinationCameraTransform (portals sa) p
                             (position camera) (quaternion camera);
                          sb = sa\<lparr> portalCamera := destTransform \<rparr>
                      in renderSceneWithStencilTest sb (portalCamera sb) destinationScene 1
                           EqualStencilFunc));
          st4 = renderSceneWithStencilTest st3 camera currentScene 1 NotEqualStencilFunc
      in st4\<lparr> autoClear := originalAutoClear \<rparr>)"

text \<open>
  What one frame adds to the sequence of renderer calls, and the destination passes among
  them: the draws under the test \<open>EqualStencilFunc\<close>, each with its marker value.
\<close>

definition calls_since :: "render_state \<Rightarrow> render_state \<Rightarrow> renderer_call list" where
  "calls_since st st' = drop (length (calls st)) (calls st')"

fun destination_passes :: "renderer_call list \<Rightarrow> nat list" where
  "destination_passes [] = []"
| "destination_passes (c # cs) =
     (case c of
        SceneDraw sc ms cam r EqualStencilFunc \<Rightarrow> r # destination_passes cs
      | _ \<Rightarrow> destination_passes cs)"

text \<open>
  The cameras of a mutual loop between the portals \<open>a\<close> and \<open>b\<close>: the caller's camera, then
  the pose obtained by going through \<open>a\<close>, then through \<open>b\<close>, and so on in turn.
\<close>

fun loopCamera :: "portal_store \<Rightarrow> addr \<Rightarrow> addr \<Rightarrow> pose \<Rightarrow> nat \<Rightarrow> pose" where
  "loopCamera ps a b c 0 = c"
| "loopCamera ps a b c (Suc k) =
     getDestinationCameraTransform ps (if even k then a else b)
       (position (loopCamera ps a b c k)) (quaternion (loopCamera ps a b c k))"

text \<open>The fields of the portals that the passes read and never write.\<close>

definition same_layout :: "portal_store \<Rightarrow> portal_store \<Rightarrow> bool" where
  "same_layout ps ps' \<longleftrightarrow>
     (\<forall>a. position (ps' a) = position (ps a) \<and> quaternion (ps' a) = quaternion (ps a)
        \<and> normal (ps' a) = normal (ps a) \<and> linkedPortal (ps' a) = linkedPortal (ps a)
        \<and> scene (ps' a) = scene (ps a))"

text \<open>
  From the state \<open>st\<close> to the state \<open>st'\<close> renderer calls were only added, and every
  destination pass among them carries a marker above \<open>d\<close> and at most \<open>n\<close>.
\<close>

definition passes_within :: "nat \<Rightarrow> nat \<Rightarrow> render_state \<Rightarrow> render_state \<Rightarrow> bool" where
  "passes_within d n st st' \<longleftrightarrow>
     (\<exists>cs. calls st' = calls st @ cs \<and> (\<forall>r\<in>set (destination_passes cs). d < r \<and> r \<le> n))"

text \<open>
  A pair of portals, each alone in its own world: world \<open>wa\<close> holds the portal \<open>a\<close> and world
  \<open>wb\<close> the portal \<open>b\<close>, the two are linked to each other, and the search finds their worlds.
\<close>

definition portal_pair ::
  "frame \<Rightarrow> portal_store \<Rightarrow> addr \<Rightarrow> addr \<Rightarrow> PortalWorld \<Rightarrow> PortalWorld \<Rightarrow> bool" where
  "portal_pair fr ps a b wa wb \<longleftrightarrow>
     world_portals wa = [a] \<and> world_portals wb = [b] \<and>
     linkedPortal (ps a) = Some b \<and> linkedPortal (ps b) = Some a \<and>
     findDestWorld (allWorlds fr) a = Some wa \<and> findDestWorld (allWorlds fr) b = Some wb"

text \<open>The camera used at depth \<open>k\<close> is in front of the portal it looks through.\<close>

definition camera_in_front :: "frame \<Rightarrow> portal_store \<Rightarrow> addr \<Rightarrow> addr \<Rightarrow> nat \<Rightarrow> bool" where
  "camera_in_front fr ps a b k =
     isPointInFront (ps (if even k then a else b))
       (position (loopCamera ps a b (mainCamera fr) k))"

text \<open>
  How deep the passes of a pair nest: from depth \<open>d\<close>, with \<open>n\<close> levels left, the depth
  grows as long as the camera used is in front of the portal it looks through.
\<close>

fun front_run :: "frame \<Rightarrow> portal_store \<Rightarrow> addr \<Rightarrow> addr \<Rightarrow> nat \<Rightarrow> nat \<Rightarrow> nat" where
  "front_run fr ps a b d 0 = d"
| "front_run fr ps a b d (Suc n) =
     (if camera_in_front fr ps a b d then front_run fr ps a b (Suc d) n else d)"

text \<open>
  The cached normal of a portal is in step with its orientation, a unit quaternion: the
  state after the constructor or after \<^verbatim>\<open>updateMesh\<close>.
\<close>

definition in_step :: "portal \<Rightarrow> bool" where
  "in_step p \<longleftrightarrow>
     unitQ (quaternion p) \<and> normal p = applyQuaternion (Vector3 0 0 1) (quaternion p)"

text \<open>The reference value and the test of a scene draw.\<close>

fun call_stencil :: "renderer_call \<Rightarrow> (nat \<times> StencilFunc) option" where
  "call_stencil (SceneDraw sc ms cam r f) = Some (r, f)"
| "call_stencil (MaskDraw sc cs cam r) = None"
| "call_stencil (Clear c d s) = None"

text \<open>
  A concrete frame.  Portal A (address 0, scene 0) is at the origin and faces \<open>+Z\<close>; its mask
  mesh is in no scene.  Portal B (address 1, scene 1) is at (0,0,10) and was built turned
  by 180 degrees about the vertical axis, so its cached normal is \<open>-Z\<close>; its quaternion was
  then set to the identity in place, without a call of \<^verbatim>\<open>updateMesh\<close>, and its mask mesh is a
  child of scene 1.  With this stale normal each portal is in front of the camera that
  arrives through the other one.  Each scene has one mesh with one material.
\<close>

definition loopA :: portal where
  "loopA = scenarioA\<lparr> scene := Some 0 \<rparr>"

definition loopB :: portal where
  "loopB = scenarioB\<lparr> quaternion := identityQ, scene := Some 1, mesh_parent := Some 1 \<rparr>"

definition loop_store :: portal_store where
  "loop_store = link ((\<lambda>_. loopA)(1 := loopB)) 0 1"

definition worldA :: PortalWorld where
  "worldA = \<lparr> world_scene = 0, world_portals = [0] \<rparr>"

definition worldB :: PortalWorld where
  "worldB = \<lparr> world_scene = 1, world_portals = [1] \<rparr>"

definition viewer :: pose where
  "viewer = \<lparr> position = Vector3 0 1 (1 / 2), quaternion = identityQ \<rparr>"

definition demo_frame :: "nat \<Rightarrow> frame" where
  "demo_frame n =
     \<lparr> maxRecursion = n, mainCamera = viewer,
       allWorlds = [(''outer'', worldA), (''inner'', worldB)] \<rparr>"

definition plain_material :: material where
  "plain_material = \<lparr> stencilWrite = False, stencilFunc = AlwaysStencilFunc, stencilRef = 0 \<rparr>"

definition demo_children :: "addr \<Rightarrow> object3d list" where
  "demo_children sc =
     (if sc = 0 then [Mesh 0 [Mat 0]]
      else if sc = 1 then [Mesh 1 [Mat 1], PortalMesh 1]
      else [])"

definition demo_state :: render_state where
  "demo_state =
     \<lparr> autoClear = True,
       portalCamera = \<lparr> position = Vector3 0 0 0, quaternion = identityQ \<rparr>,
       portals = loop_store,
       children = demo_children,
       materials = (\<lambda>_. plain_material),
       calls = [] \<rparr>"

text \<open>
  The same two worlds with portal B as the constructor leaves it (normal in step with the
  orientation), and a single world that lists both portals of such a pair.
\<close>

definition pairB :: portal where
  "pairB = scenarioB\<lparr> scene := Some 1, mesh_parent := Some 1 \<rparr>"

definition pair_store :: portal_store where
  "pair_store = link ((\<lambda>_. loopA)(1 := pairB)) 0 1"

definition pair_state :: render_state where
  "pair_state = demo_state\<lparr> portals := pair_store \<rparr>"

definition sharedB :: portal where
  "sharedB = scenarioB\<lparr> scene := Some 0 \<rparr>"

definition shared_store :: portal_store where
  "shared_store = link ((\<lambda>_. loopA)(1 := sharedB)) 0 1"

definition shared_state :: render_state where
  "shared_state = demo_state\<lparr> portals := shared_store \<rparr>"

definition worldAB :: PortalWorld where
  "worldAB = \<lparr> world_scene = 0, world_portals = [0, 1] \<rparr>"

definition shared_frame :: frame where
  "shared_frame =
     \<lparr> maxRecursion = 1, mainCamera = viewer, allWorlds = [(''outer'', worldAB)] \<rparr>"

section \<open>Link symmetry\<close>

definition link_symmetric :: "portal_store \<Rightarrow> bool" where
  "link_symmetric st \<longleftrightarrow>
     (\<forall>a b. linkedPortal (st a) = Some b \<longrightarrow> linkedPortal (st b) = Some a)"

text \<open>Two portals can be linked afresh: each is unlinked or already linked to the other.\<close>

definition linkable :: "portal_store \<Rightarrow> addr \<Rightarrow> addr \<Rightarrow> bool" where
  "linkable st a b \<longleftrightarrow>
     (linkedPortal (st a) = None \<or> linkedPortal (st a) = Some b) \<and>
     (linkedPortal (st b) = None \<or> linkedPortal (st b) = Some a)"

fun link_all :: "portal_store \<Rightarrow> (addr \<times> addr) list \<Rightarrow> portal_store" where
  "link_all st [] = st"
| "link_all st ((a, b) # rest) = link_all (link st a b) rest"

fun linkable_all :: "portal_store \<Rightarrow> (addr \<times> addr) list \<Rightarrow> bool" where
  "linkable_all st [] = True"
| "linkable_all st ((a, b) # rest) = (linkable st a b \<and> linkable_all (link st a b) rest)"

text \<open>A store of unlinked portals.\<close>

definition unlinked_store :: portal_store where
  "unlinked_store = (\<lambda>_. scenarioA)"

section \<open>PortalUtils.ts: the oblique projection\<close>

text \<open>
  A matrix is its \<^verbatim>\<open>elements\<close> array in column-major order, sixteen numbers for a
  \<^verbatim>\<open>Matrix4\<close> and nine for a \<^verbatim>\<open>Matrix3\<close>.  The three.js operations that
  \<^verbatim>\<open>Plane.applyMatrix4\<close> is made of are written out: the normal matrix is the transposed
  inverse of the upper left block, the inverse being the zero matrix when the determinant
  is zero.
\<close>

type_synonym Matrix4 = "real list"
type_synonym Matrix3 = "real list"

datatype Vector4 = Vector4 (v4_x: real) (v4_y: real) (v4_z: real) (v4_w: real)

fun dot4 :: "Vector4 \<Rightarrow> Vector4 \<Rightarrow> real" where
  "dot4 (Vector4 ax ay az aw) (Vector4 bx by bz bw) = ax * bx + ay * by + az * bz + aw * bw"

fun multiplyScalar4 :: "Vector4 \<Rightarrow> real \<Rightarrow> Vector4" where
  "multiplyScalar4 (Vector4 ax ay az aw) s = Vector4 (ax * s) (ay * s) (az * s) (aw * s)"

definition setFromMatrix4 :: "Matrix4 \<Rightarrow> Matrix3" where
  "setFromMatrix4 me = [me ! 0, me ! 1, me ! 2, me ! 4, me ! 5, me ! 6, me ! 8, me ! 9, me ! 10]"

definition invert3 :: "Matrix3 \<Rightarrow> Matrix3" where
  "invert3 te =
     (let n11 = te ! 0; n21 = te ! 1; n31 = te ! 2;
          n12 = te ! 3; n22 = te ! 4; n32 = te ! 5;
          n13 = te ! 6; n23 = te ! 7; n33 = te ! 8;
          t11 = n33 * n22 - n32 * n23;
          t12 = n32 * n13 - n33 * n12;
          t13 = n23 * n12 - n22 * n13;
          det = n11 * t11 + n21 * t12 + n31 * t13
      in if det = 0 then [0, 0, 0, 0, 0, 0, 0, 0, 0]
         else (let detInv = 1 / det
               in [t11 * detInv,
                   (n31 * n23 - n33 * n21) * detInv,
                   (n32 * n21 - n31 * n22) * detInv,
                   t12 * detInv,
                   (n33 * n11 - n31 * n13) * detInv,
                   (n31 * n12 - n32 * n11) * detInv,
                   t13 * detInv,
                   (n21 * n13 - n23 * n11) * detInv,
                   (n22 * n11 - n21 * n12) * detInv]))"

definition transpose3 :: "Matrix3 \<Rightarrow> Matrix3" where
  "transpose3 m = [m ! 0, m ! 3, m ! 6, m ! 1, m ! 4, m ! 7, m ! 2, m ! 5, m ! 8]"

definition getNormalMatrix :: "Matrix4 \<Rightarrow> Matrix3" where
  "getNormalMatrix m = transpose3 (invert3 (setFromMatrix4 m))"

fun applyMatrix3 :: "Vector3 \<Rightarrow> Matrix3 \<Rightarrow> Vector3" where
  "applyMatrix3 (Vector3 x y z) e =
     Vector3 (e ! 0 * x + e ! 3 * y + e ! 6 * z)
             (e ! 1 * x + e ! 4 * y + e ! 7 * z)
             (e ! 2 * x + e ! 5 * y + e ! 8 * z)"

fun applyMatrix4 :: "Vector3 \<Rightarrow> Matrix4 \<Rightarrow> Vector3" where
  "applyMatrix4 (Vector3 x y z) e =
     (let w = 1 / (e ! 3 * x + e ! 7 * y + e ! 11 * z + e ! 15)
      in Vector3 ((e ! 0 * x + e ! 4 * y + e ! 8 * z + e ! 12) * w)
                 ((e ! 1 * x + e ! 5 * y + e ! 9 * z + e ! 13) * w)
                 ((e ! 2 * x + e ! 6 * y + e ! 10 * z + e ! 14) * w))"

text \<open>\<^verbatim>\<open>Vector3.normalize\<close>: division by the length, or by one when the length is zero.\<close>

definition normalize :: "Vector3 \<Rightarrow> Vector3" where
  "normalize v = multiplyScalar v (1 / (if length_v v = 0 then 1 else length_v v))"

definition plane_applyMatrix4 :: "Plane \<Rightarrow> Matrix4 \<Rightarrow> Plane" where
  "plane_applyMatrix4 pl matrix =
     (let normalMatrix = getNormalMatrix matrix;
          referencePoint =
            applyMatrix4 (multiplyScalar (plane_normal pl) (- plane_constant pl)) matrix;
          n = normalize (applyMatrix3 (plane_normal pl) normalMatrix)
      in Plane n (- dot referencePoint n))"

text \<open>The two fields of the camera that \<^verbatim>\<open>computeObliqueProjectionMatrix\<close> reads.\<close>

record perspective_camera =
  projectionMatrix :: Matrix4
  matrixWorldInverse :: Matrix4

definition computeObliqueProjectionMatrix :: "perspective_camera \<Rightarrow> Plane \<Rightarrow> Matrix4" where
  "computeObliqueProjectionMatrix camera clipPlane =
     (let pm = projectionMatrix camera;
          viewMatrix = matrixWorldInverse camera;
          clipPlaneCamera = plane_applyMatrix4 clipPlane viewMatrix;
          clipPlaneVec = Vector4 (v_x (plane_normal clipPlaneCamera))
                                 (v_y (plane_normal clipPlaneCamera))
                                 (v_z (plane_normal clipPlaneCamera))
                                 (plane_constant clipPlaneCamera);
          q = Vector4 ((sgn (v4_x clipPlaneVec) + pm ! 8) / pm ! 0)
                      ((sgn (v4_y clipPlaneVec) + pm ! 9) / pm ! 5)
                      (- 1)
                      ((1 + pm ! 10) / pm ! 14);
          c = multiplyScalar4 clipPlaneVec (2 / dot4 clipPlaneVec q)
      in pm[2 := v4_x c, 6 := v4_y c, 10 := v4_z c + 1, 14 := v4_w c])"

text \<open>
  The projection matrix of a perspective camera is what \<^verbatim>\<open>Matrix4.makePerspective\<close> of
  three.js builds from the frustum (\<^verbatim>\<open>PerspectiveCamera.updateProjectionMatrix\<close> calls it with
  the camera's \<^verbatim>\<open>near\<close>, \<^verbatim>\<open>far\<close> and \<^verbatim>\<open>coordinateSystem\<close>).  The library has two depth
  conventions: clip-space depth from \<open>-1\<close> to \<open>1\<close> for \<^verbatim>\<open>WebGLCoordinateSystem\<close>, the default of a
  new camera, and from \<open>0\<close> to \<open>1\<close> for \<^verbatim>\<open>WebGPUCoordinateSystem\<close>, which a \<^verbatim>\<open>WebGPURenderer\<close> on
  a WebGPU backend sets on every camera it renders with.
\<close>

datatype CoordinateSystem = WebGLCoordinateSystem | WebGPUCoordinateSystem

definition makePerspective ::
  "real \<Rightarrow> real \<Rightarrow> real \<Rightarrow> real \<Rightarrow> real \<Rightarrow> real \<Rightarrow> CoordinateSystem \<Rightarrow> Matrix4" where
  "makePerspective left right top' bottom' near far coordinateSystem =
     (let x = 2 * near / (right - left);
          y = 2 * near / (top' - bottom');
          a = (right + left) / (right - left);
          b = (top' + bottom') / (top' - bottom');
          c = (case coordinateSystem of
                 WebGLCoordinateSystem \<Rightarrow> - (far + near) / (far - near)
               | WebGPUCoordinateSystem \<Rightarrow> - far / (far - near));
          d = (case coordinateSystem of
                 WebGLCoordinateSystem \<Rightarrow> (- 2 * far * near) / (far - near)
               | WebGPUCoordinateSystem \<Rightarrow> (- far * near) / (far - near))
      in [x, 0, 0, 0,
          0, y, 0, 0,
          a, b, c, - 1,
          0, 0, d, 0])"

definition identity4 :: Matrix4 where
  "identity4 = [1, 0, 0, 0, 0, 1, 0, 0, 0, 0, 1, 0, 0, 0, 0, 1]"

text \<open>The near plane of a camera in its own space: the points with \<open>z = - near\<close>, facing forward.\<close>

definition nearPlane :: "real \<Rightarrow> Plane" where
  "nearPlane near = Plane (Vector3 0 0 (- 1)) (- near)"

text \<open>
  Two cameras with the frustum \<open>[-1,1] \<times> [-1,1]\<close>, near plane 1, far plane 3 and the
  identity as view matrix: one in each depth convention.
\<close>

definition webgl_camera :: perspective_camera where
  "webgl_camera =
     \<lparr> projectionMatrix = makePerspective (- 1) 1 1 (- 1) 1 3 WebGLCoordinateSystem,
       matrixWorldInverse = identity4 \<rparr>"

definition webgpu_camera :: perspective_camera where
  "webgpu_camera =
     \<lparr> projectionMatrix = makePerspective (- 1) 1 1 (- 1) 1 3 WebGPUCoordinateSystem,
       matrixWorldInverse = identity4 \<rparr>"

section \<open>Rotation lemmas\<close>

lemma sub_add_cancel_v: "sub (add v p) p = v"
  by (cases v; cases p) simp

lemma add_sub_cancel_v: "add (sub v p) p = v"
  by (cases v; cases p) simp

lemma negateXZ_involution: "negateXZ (negateXZ v) = v"
  by (cases v) simp

lemma invert_invert: "invert (invert q) = q"
  by (cases q) simp

lemma unitQ_invert: "unitQ (invert q) = unitQ q"
  by (cases q) (simp add: unitQ_def)

text \<open>
  Rotating by a quaternion and then by its conjugate: the defect from the identity is a
  multiple of \<open>1 - |q|\<^sup>2\<close>, for any quaternion.
\<close>

lemma applyQuaternion_invert_general:
  "applyQuaternion (applyQuaternion (Vector3 a b c) (Quaternion x y z w))
     (invert (Quaternion x y z w))
   = Vector3 (a + 4 * (1 - (x*x+y*y+z*z+w*w)) * (y * (x*b - y*a) - z * (z*a - x*c)))
             (b + 4 * (1 - (x*x+y*y+z*z+w*w)) * (z * (y*c - z*b) - x * (x*b - y*a)))
             (c + 4 * (1 - (x*x+y*y+z*z+w*w)) * (x * (z*a - x*c) - y * (y*c - z*b)))"
  by (simp add: Let_def algebra_simps)

lemma applyQuaternion_invert_cancel:
  assumes "unitQ q"
  shows "applyQuaternion (applyQuaternion v q) (invert q) = v"
proof (cases v)
  case v: (Vector3 a b c)
  show ?thesis
  proof (cases q)
    case q: (Quaternion x y z w)
    from assms q have n: "x*x+y*y+z*z+w*w = 1" by (simp add: unitQ_def)
    show ?thesis
      unfolding v q applyQuaternion_invert_general n by simp
  qed
qed

lemma invert_applyQuaternion_cancel:
  assumes "unitQ q"
  shows "applyQuaternion (applyQuaternion v (invert q)) q = v"
proof -
  have "unitQ (invert q)" using assms by (simp add: unitQ_invert)
  from applyQuaternion_invert_cancel [OF this, of v] show ?thesis
    by (simp add: invert_invert)
qed

lemma lengthSq_apply_general:
  "(case applyQuaternion (Vector3 a b c) (Quaternion x y z w) of
      Vector3 p q r \<Rightarrow> p*p + q*q + r*r)
   = a*a + b*b + c*c
     - 4 * (1 - (x*x+y*y+z*z+w*w)) * ((y*c - z*b)^2 + (z*a - x*c)^2 + (x*b - y*a)^2)"
  by (simp add: Let_def algebra_simps power2_eq_square)

lemma length_applyQuaternion:
  assumes "unitQ q"
  shows "length_v (applyQuaternion v q) = length_v v"
proof (cases v)
  case v: (Vector3 a b c)
  show ?thesis
  proof (cases q)
    case q: (Quaternion x y z w)
    from assms q have n: "x*x+y*y+z*z+w*w = 1" by (simp add: unitQ_def)
    obtain p r s where r: "applyQuaternion (Vector3 a b c) (Quaternion x y z w) = Vector3 p r s"
      by (cases "applyQuaternion (Vector3 a b c) (Quaternion x y z w)") blast
    from lengthSq_apply_general [of a b c x y z w]
    have "p*p + r*r + s*s = a*a + b*b + c*c" unfolding r n by simp
    then show ?thesis unfolding v q r by simp
  qed
qed

lemma length_negateXZ: "length_v (negateXZ v) = length_v v"
  by (cases v) simp

lemma flipY_eq: "flipY = Quaternion 0 1 0 0"
  by (simp add: flipY_def Let_def)

lemma multiply_assoc: "multiply (multiply a b) c = multiply a (multiply b c)"
  by (cases a; cases b; cases c) (simp add: algebra_simps)

lemma unitQ_identityQ: "unitQ identityQ"
  by (simp add: unitQ_def identityQ_def)

lemma unitQ_half_turn: "unitQ (Quaternion 0 1 0 0)"
  by (simp add: unitQ_def)

text \<open>Rotations preserve the dot product, and the inverse rotation is the transpose.\<close>

lemma dot_applyQuaternion_general:
  "dot (applyQuaternion (Vector3 a b c) (Quaternion x y z w))
       (applyQuaternion (Vector3 d e f) (Quaternion x y z w))
   = a*d + b*e + c*f
     - 4 * (1 - (x*x+y*y+z*z+w*w))
         * ((y*c - z*b) * (y*f - z*e) + (z*a - x*c) * (z*d - x*f) + (x*b - y*a) * (x*e - y*d))"
  by (simp add: Let_def algebra_simps)

lemma dot_applyQuaternion:
  assumes "unitQ q"
  shows "dot (applyQuaternion u q) (applyQuaternion v q) = dot u v"
proof (cases u)
  case u: (Vector3 a b c)
  show ?thesis
  proof (cases v)
    case v: (Vector3 d e f)
    show ?thesis
    proof (cases q)
      case q: (Quaternion x y z w)
      from assms q have n: "x*x+y*y+z*z+w*w = 1" by (simp add: unitQ_def)
      show ?thesis
        unfolding u v q dot_applyQuaternion_general n by simp
    qed
  qed
qed

lemma dot_applyQuaternion_invert:
  "dot (applyQuaternion r (invert q)) v = dot r (applyQuaternion v q)"
  by (cases r; cases v; cases q) (simp add: Let_def algebra_simps)

lemma dot_negateXZ_z: "dot (negateXZ w) (Vector3 0 0 1) = - dot w (Vector3 0 0 1)"
  by (cases w) simp

text \<open>
  The signed distance to the destination portal of a point taken through a portal is the
  opposite of its signed distance to that portal, when the normals are in step with the
  orientations.
\<close>

lemma signed_distance_through:
  assumes l: "linkedPortal (ps a) = Some b"
    and sa: "normal (ps a) = applyQuaternion (Vector3 0 0 1) (quaternion (ps a))"
    and sb: "in_step (ps b)"
  shows "dot (sub (position (getDestinationCameraTransform ps a p q)) (position (ps b)))
             (normal (ps b))
         = - dot (sub p (position (ps a))) (normal (ps a))"
proof -
  define w where "w = applyQuaternion (sub p (position (ps a))) (invert (quaternion (ps a)))"
  have pos: "position (getDestinationCameraTransform ps a p q)
      = add (applyQuaternion (negateXZ w) (quaternion (ps b))) (position (ps b))"
    using l by (simp add: getDestinationCameraTransform_def Let_def w_def)
  from sb have ub: "unitQ (quaternion (ps b))"
    and nb: "normal (ps b) = applyQuaternion (Vector3 0 0 1) (quaternion (ps b))"
    by (simp_all add: in_step_def)
  have "dot (sub (position (getDestinationCameraTransform ps a p q)) (position (ps b)))
             (normal (ps b))
        = dot (applyQuaternion (negateXZ w) (quaternion (ps b)))
              (applyQuaternion (Vector3 0 0 1) (quaternion (ps b)))"
    unfolding pos sub_add_cancel_v nb ..
  also have "\<dots> = dot (negateXZ w) (Vector3 0 0 1)"
    by (rule dot_applyQuaternion [OF ub])
  also have "\<dots> = - dot w (Vector3 0 0 1)" by (rule dot_negateXZ_z)
  also have "\<dots> = - dot (sub p (position (ps a))) (normal (ps a))"
    unfolding w_def dot_applyQuaternion_invert sa ..
  finally show ?thesis .
qed

section \<open>The linking operation in closed form\<close>

declare link.simps [simp del]

lemma link_eq:
  "link st a b =
     (if a = b then st(a := (st a)\<lparr>linkedPortal := Some a\<rparr>)
      else st(a := (st a)\<lparr>linkedPortal := Some b\<rparr>, b := (st b)\<lparr>linkedPortal := Some a\<rparr>))"
proof (cases "a = b")
  case True
  then show ?thesis by (subst link.simps) simp
next
  case False
  show ?thesis
  proof (cases "linkedPortal (st b) = Some a")
    case True
    have "st(a := (st a)\<lparr>linkedPortal := Some b\<rparr>, b := (st b)\<lparr>linkedPortal := Some a\<rparr>)
          = st(a := (st a)\<lparr>linkedPortal := Some b\<rparr>)"
      using True False by (auto simp: fun_eq_iff)
    with True False show ?thesis by (subst link.simps) (simp add: Let_def)
  next
    case F2: False
    have "link (st(a := (st a)\<lparr>linkedPortal := Some b\<rparr>)) b a
          = st(a := (st a)\<lparr>linkedPortal := Some b\<rparr>, b := (st b)\<lparr>linkedPortal := Some a\<rparr>)"
      using False by (subst link.simps) (simp add: Let_def)
    with F2 False show ?thesis by (subst link.simps) (simp add: Let_def)
  qed
qed

lemma scenario_store_0: "scenario_store 0 = scenarioA\<lparr>linkedPortal := Some 1\<rparr>"
  by (simp add: scenario_store_def link_eq)

lemma scenario_store_1: "scenario_store 1 = scenarioB\<lparr>linkedPortal := Some 0\<rparr>"
  by (simp add: scenario_store_def link_eq)

lemma scenario_transform:
  "getDestinationCameraTransform scenario_store 0 (Vector3 0 1 (- 1 / 2)) identityQ
     = \<lparr> position = Vector3 0 1 (19 / 2), quaternion = Quaternion 0 0 0 (- 1) \<rparr>"
  using scenario_store_0 scenario_store_1
  by (simp add: getDestinationCameraTransform_def Let_def
     flipY_eq identityQ_def scenarioA_def scenarioB_def newPortal_def)

lemma transform_refines_spec:
  "linkedPortal (st this) = Some d \<Longrightarrow>
   getDestinationCameraTransform st this p q = spec_destination_transform (st this) (st d) p q"
  by (cases "applyQuaternion (sub p (position (st this))) (invert (quaternion (st this)))")
     (simp add: getDestinationCameraTransform_def spec_destination_transform_def Let_def
        flipY_eq multiply_assoc)

lemma minus_one_rotation: "applyQuaternion v (Quaternion 0 0 0 (- 1)) = v"
  by (cases v) simp

section \<open>Link symmetry lemmas\<close>

lemma linkedPortal_link:
  "linkedPortal (link st a b x) =
     (if x = a then Some b else if x = b then Some a else linkedPortal (st x))"
  by (simp add: link_eq)

lemma link_preserves_symmetric:
  assumes sym: "link_symmetric st" and ok: "linkable st a b"
  shows "link_symmetric (link st a b)"
  unfolding link_symmetric_def
proof (intro allI impI)
  fix x y
  assume xy: "linkedPortal (link st a b x) = Some y"
  show "linkedPortal (link st a b y) = Some x"
  proof (cases "x = a")
    case True
    with xy have "y = b" by (simp add: linkedPortal_link)
    with True show ?thesis by (simp add: linkedPortal_link)
  next
    case xa: False
    show ?thesis
    proof (cases "x = b")
      case True
      with xy xa have "y = a" by (simp add: linkedPortal_link)
      with True show ?thesis by (simp add: linkedPortal_link)
    next
      case xb: False
      with xy xa have sx: "linkedPortal (st x) = Some y" by (simp add: linkedPortal_link)
      with sym have sy: "linkedPortal (st y) = Some x" unfolding link_symmetric_def by blast
      have "y \<noteq> a"
      proof
        assume "y = a"
        with sy ok have "x = b" unfolding linkable_def by simp
        with xb show False by simp
      qed
      moreover have "y \<noteq> b"
      proof
        assume "y = b"
        with sy ok have "x = a" unfolding linkable_def by simp
        with xa show False by simp
      qed
      ultimately show ?thesis using sy by (simp add: linkedPortal_link)
    qed
  qed
qed

lemma link_all_symmetric:
  "link_symmetric st \<Longrightarrow> linkable_all st xs \<Longrightarrow> link_symmetric (link_all st xs)"
proof (induction xs arbitrary: st)
  case Nil
  then show ?case by simp
next
  case (Cons x xs)
  obtain a b where x: "x = (a, b)" by (cases x)
  from Cons.prems have "link_symmetric (link st a b)" "linkable_all (link st a b) xs"
    unfolding x by (simp_all add: link_preserves_symmetric)
  then have "link_symmetric (link_all (link st a b) xs)" by (rule Cons.IH)
  then show ?case unfolding x by simp
qed

lemma unlinked_store_linked: "linkedPortal (unlinked_store a) = None"
  by (simp add: unlinked_store_def scenarioA_def newPortal_def)

section \<open>Oblique projection lemmas\<close>

lemma plane_identity:
  "plane_applyMatrix4 (nearPlane n) identity4 = nearPlane n"
  by (simp add: plane_applyMatrix4_def nearPlane_def identity4_def getNormalMatrix_def
      setFromMatrix4_def invert3_def transpose3_def normalize_def Let_def)

lemma oblique_near_plane:
  assumes pl: "plane_applyMatrix4 clipPlane (matrixWorldInverse camera) = nearPlane near"
  shows "computeObliqueProjectionMatrix camera clipPlane =
     (let pm = projectionMatrix camera;
          s = 2 / (1 + - near * ((1 + pm ! 10) / pm ! 14))
      in pm[2 := 0, 6 := 0, 10 := - s + 1, 14 := - near * s])"
  by (simp add: computeObliqueProjectionMatrix_def pl nearPlane_def Let_def)

lemma oblique_core:
  assumes n: "0 < near" and f: "near < far" and lr: "left \<noteq> right" and tb: "top' \<noteq> bottom'"
    and pm: "projectionMatrix camera = makePerspective left right top' bottom' near far WebGLCoordinateSystem"
    and pl: "plane_applyMatrix4 clipPlane (matrixWorldInverse camera) = nearPlane near"
  shows "computeObliqueProjectionMatrix camera clipPlane = projectionMatrix camera"
proof -
  have d: "far - near \<noteq> 0" "far \<noteq> 0" "near \<noteq> 0" using n f by auto
  define c where "c = - (far + near) / (far - near)"
  define dd where "dd = (- 2 * far * near) / (far - near)"
  have e1: "(1 + c) / dd = 1 / far"
    using d unfolding c_def dd_def by (simp add: field_simps)
  have e2: "2 / (1 + - near * (1 / far)) = 2 * far / (far - near)"
    using d by (simp add: field_simps)
  have e3: "- (2 * far / (far - near)) + 1 = c"
    using d unfolding c_def by (simp add: field_simps)
  have e4: "- near * (2 * far / (far - near)) = dd"
    using d unfolding dd_def by (simp add: field_simps)
  have pm': "projectionMatrix camera =
     [2 * near / (right - left), 0, 0, 0, 0, 2 * near / (top' - bottom'), 0, 0,
      (right + left) / (right - left), (top' + bottom') / (top' - bottom'), c, - 1, 0, 0, dd, 0]"
    unfolding pm makePerspective_def c_def dd_def by (simp add: Let_def)
  have "computeObliqueProjectionMatrix camera clipPlane =
     (projectionMatrix camera)[2 := 0, 6 := 0,
        10 := - (2 / (1 + - near * ((1 + c) / dd))) + 1,
        14 := - near * (2 / (1 + - near * ((1 + c) / dd)))]"
    unfolding oblique_near_plane [OF pl] by (simp add: pm' Let_def)
  also have "\<dots> = (projectionMatrix camera)[2 := 0, 6 := 0, 10 := c, 14 := dd]"
    unfolding e1 e2 e3 e4 ..
  also have "\<dots> = projectionMatrix camera"
    unfolding pm' by simp
  finally show ?thesis .
qed


section \<open>Renderer lemmas\<close>

lemma destination_passes_append:
  "destination_passes (xs @ ys) = destination_passes xs @ destination_passes ys"
  by (induction xs) (auto split: renderer_call.splits StencilFunc.splits)

lemma remove_mesh_fields:
  "autoClear (remove_mesh st c a) = autoClear st"
  "portalCamera (remove_mesh st c a) = portalCamera st"
  "materials (remove_mesh st c a) = materials st"
  "calls (remove_mesh st c a) = calls st"
  "same_layout (portals st) (portals (remove_mesh st c a))"
  by (simp_all add: remove_mesh_def same_layout_def)

lemma add_mesh_fields:
  "autoClear (add_mesh st c a) = autoClear st"
  "portalCamera (add_mesh st c a) = portalCamera st"
  "materials (add_mesh st c a) = materials st"
  "calls (add_mesh st c a) = calls st"
  "same_layout (portals st) (portals (add_mesh st c a))"
  by (simp_all add: add_mesh_def remove_mesh_def same_layout_def Let_def split: option.splits)

lemma same_layout_refl: "same_layout ps ps"
  by (simp add: same_layout_def)

lemma same_layout_trans: "same_layout a b \<Longrightarrow> same_layout b c \<Longrightarrow> same_layout a c"
  by (simp add: same_layout_def)

lemma remove_mesh_children:
  "children (remove_mesh st c a) sc =
     (if sc = c then remove1 (PortalMesh a) (children st c) else children st sc)"
  by (simp add: remove_mesh_def remove1_idem)

lemma add_mesh_children_other:
  "mesh_parent (portals st a) \<noteq> Some sc \<Longrightarrow>
   children (add_mesh st sc a) sc = children st sc @ [PortalMesh a]"
  by (cases "mesh_parent (portals st a)") (simp_all add: add_mesh_def remove_mesh_def Let_def)

lemma add_mesh_parent: "mesh_parent (portals (add_mesh st c a) a) = Some c"
  by (simp add: add_mesh_def Let_def)

lemma add_mesh_scene: "scene (portals (add_mesh st c a) x) = scene (portals st x)"
  using add_mesh_fields(5) [of st c a] by (simp add: same_layout_def)


lemma set_remove1_reinsert: "x \<in> set xs \<Longrightarrow> insert x (set (remove1 x xs)) = set xs"
  by (induction xs) auto

lemma renderPortalStencil_children:
  assumes "scene (portals st p) = Some sc"
  shows "set (children (renderPortalStencil st p camera v) sc) = set (children st sc)"
proof (cases "mesh_parent (portals st p) = Some sc")
  case True
  with assms show ?thesis by (simp add: renderPortalStencil_def Let_def)
next
  case False
  define st1 where "st1 = st\<lparr> materials := (materials st)(StencilMaterialOf p :=
      (materials st (StencilMaterialOf p))\<lparr>stencilRef := v\<rparr>) \<rparr>"
  have p1: "mesh_parent (portals st1 p) \<noteq> Some sc" "children st1 sc = children st sc"
    using False by (simp_all add: st1_def)
  have "children (renderPortalStencil st p camera v) sc
        = remove1 (PortalMesh p) (children st sc @ [PortalMesh p])"
    using assms False add_mesh_children_other [OF p1(1)] p1(2)
    by (simp add: renderPortalStencil_def Let_def st1_def [symmetric] remove_mesh_children
        remove_mesh_def)
  then show ?thesis
    by (cases "PortalMesh p \<in> set (children st sc)")
       (simp_all add: remove1_append set_remove1_reinsert)
qed

lemma renderPortalStencil_children_list:
  assumes "scene (portals st p) = Some sc"
    and "mesh_parent (portals st p) = Some sc \<or> PortalMesh p \<notin> set (children st sc)"
  shows "children (renderPortalStencil st p camera v) sc = children st sc"
proof (cases "mesh_parent (portals st p) = Some sc")
  case True
  with assms show ?thesis by (simp add: renderPortalStencil_def Let_def)
next
  case False
  define st1 where "st1 = st\<lparr> materials := (materials st)(StencilMaterialOf p :=
      (materials st (StencilMaterialOf p))\<lparr>stencilRef := v\<rparr>) \<rparr>"
  have p1: "mesh_parent (portals st1 p) \<noteq> Some sc" "children st1 sc = children st sc"
    using False by (simp_all add: st1_def)
  have "children (renderPortalStencil st p camera v) sc
        = remove1 (PortalMesh p) (children st sc @ [PortalMesh p])"
    using assms False add_mesh_children_other [OF p1(1)] p1(2)
    by (simp add: renderPortalStencil_def Let_def st1_def [symmetric] remove_mesh_children
        remove_mesh_def)
  with assms False show ?thesis by (simp add: remove1_append)
qed

lemma renderPortalStencil_calls:
  assumes "scene (portals st p) = Some sc"
  shows "calls (renderPortalStencil st p camera v) =
     calls st @ [MaskDraw sc
        (if mesh_parent (portals st p) = Some sc then children st sc
         else children st sc @ [PortalMesh p]) camera v]"
proof (cases "mesh_parent (portals st p) = Some sc")
  case True
  with assms show ?thesis by (simp add: renderPortalStencil_def Let_def)
next
  case False
  define st1 where "st1 = st\<lparr> materials := (materials st)(StencilMaterialOf p :=
      (materials st (StencilMaterialOf p))\<lparr>stencilRef := v\<rparr>) \<rparr>"
  have p1: "mesh_parent (portals st1 p) \<noteq> Some sc" "children st1 sc = children st sc"
    "calls st1 = calls st" "materials st1 (StencilMaterialOf p) = (materials st (StencilMaterialOf p))\<lparr>stencilRef := v\<rparr>"
    using False by (simp_all add: st1_def)
  show ?thesis
    using assms False add_mesh_children_other [OF p1(1)] p1(2,3,4)
    by (simp add: renderPortalStencil_def Let_def st1_def [symmetric] remove_mesh_fields
        add_mesh_fields)
qed

lemma renderPortalStencil_fields:
  "autoClear (renderPortalStencil st p camera v) = autoClear st"
  "portalCamera (renderPortalStencil st p camera v) = portalCamera st"
  "same_layout (portals st) (portals (renderPortalStencil st p camera v))"
  "destination_passes (calls (renderPortalStencil st p camera v)) = destination_passes (calls st)"
proof -
  define st1 where "st1 = st\<lparr> materials := (materials st)(StencilMaterialOf p :=
      (materials st (StencilMaterialOf p))\<lparr>stencilRef := v\<rparr>) \<rparr>"
  have f: "autoClear st1 = autoClear st" "portalCamera st1 = portalCamera st"
     "portals st1 = portals st" "calls st1 = calls st"
    by (simp_all add: st1_def)
  show "autoClear (renderPortalStencil st p camera v) = autoClear st"
    by (simp add: renderPortalStencil_def Let_def st1_def [symmetric] f remove_mesh_fields
        add_mesh_fields split: option.splits)
  show "portalCamera (renderPortalStencil st p camera v) = portalCamera st"
    by (simp add: renderPortalStencil_def Let_def st1_def [symmetric] f remove_mesh_fields
        add_mesh_fields split: option.splits)
  show "destination_passes (calls (renderPortalStencil st p camera v)) = destination_passes (calls st)"
    by (simp add: renderPortalStencil_def Let_def st1_def [symmetric] f remove_mesh_fields
        add_mesh_fields destination_passes_append split: option.splits)
  show "same_layout (portals st) (portals (renderPortalStencil st p camera v))"
  proof (cases "scene (portals st p)")
    case None
    then show ?thesis by (simp add: renderPortalStencil_def Let_def same_layout_refl)
  next
    case (Some sc)
    show ?thesis
    proof (cases "mesh_parent (portals st p) = Some sc")
      case True
      with Some show ?thesis by (simp add: renderPortalStencil_def Let_def same_layout_refl)
    next
      case False
      have a: "same_layout (portals st) (portals (add_mesh st1 sc p))"
        using add_mesh_fields(5) [of st1 sc p] by (simp add: f)
      define st3 where "st3 = (add_mesh st1 sc p)\<lparr> calls := calls (add_mesh st1 sc p) @
                          [MaskDraw sc (children (add_mesh st1 sc p) sc) camera
                             (stencilRef (materials (add_mesh st1 sc p) (StencilMaterialOf p)))] \<rparr>"
      have b: "portals st3 = portals (add_mesh st1 sc p)" by (simp add: st3_def)
      have c: "same_layout (portals st3) (portals (remove_mesh st3 sc p))"
        by (rule remove_mesh_fields)
      have "renderPortalStencil st p camera v = remove_mesh st3 sc p"
        using Some False by (simp add: renderPortalStencil_def Let_def st1_def [symmetric] st3_def f)
      with a b c show ?thesis by (metis same_layout_trans)
    qed
  qed
qed

lemma fold_apply_other:
  "m \<notin> set ms \<Longrightarrow> foldl (apply_stencil_test r f) mats ms m = mats m"
  by (induction ms arbitrary: mats) (auto simp: apply_stencil_test_def)

lemma renderSceneWithStencilTest_fields:
  "autoClear (renderSceneWithStencilTest st camera sc r f) = autoClear st"
  "portalCamera (renderSceneWithStencilTest st camera sc r f) = portalCamera st"
  "portals (renderSceneWithStencilTest st camera sc r f) = portals st"
  "children (renderSceneWithStencilTest st camera sc r f) = children st"
  "calls (renderSceneWithStencilTest st camera sc r f) =
     calls st @ [SceneDraw sc
        (map (foldl (apply_stencil_test r f) (materials st) (scene_materials st sc))
           (scene_materials st sc)) camera r f]"
  by (simp_all add: renderSceneWithStencilTest_def Let_def scene_materials_def)

declare renderPortals.simps [simp del] renderPortals_loop.simps [simp del]

lemma passes_within_refl: "passes_within d n st st"
  by (simp add: passes_within_def)

lemma passes_within_trans:
  assumes "passes_within d n a b" and "passes_within d n b c"
  shows "passes_within d n a c"
proof -
  from assms(1) obtain cs where cs: "calls b = calls a @ cs"
    "\<forall>r\<in>set (destination_passes cs). d < r \<and> r \<le> n"
    unfolding passes_within_def by blast
  from assms(2) obtain ds where ds: "calls c = calls b @ ds"
    "\<forall>r\<in>set (destination_passes ds). d < r \<and> r \<le> n"
    unfolding passes_within_def by blast
  have "calls c = calls a @ (cs @ ds)" using cs(1) ds(1) by simp
  moreover have "\<forall>r\<in>set (destination_passes (cs @ ds)). d < r \<and> r \<le> n"
    using cs(2) ds(2) by (auto simp: destination_passes_append)
  ultimately show ?thesis unfolding passes_within_def by blast
qed

lemma passes_within_mono:
  assumes "passes_within (Suc d) n a b"
  shows "passes_within d n a b"
proof -
  from assms obtain cs where cs: "calls b = calls a @ cs"
    "\<forall>r\<in>set (destination_passes cs). Suc d < r \<and> r \<le> n"
    unfolding passes_within_def by blast
  from cs(2) have "\<forall>r\<in>set (destination_passes cs). d < r \<and> r \<le> n" by auto
  with cs(1) show ?thesis unfolding passes_within_def by blast
qed

lemma passes_within_stencil:
  "passes_within d n st (renderPortalStencil st p camera v)"
proof (cases "scene (portals st p)")
  case None
  then have "calls (renderPortalStencil st p camera v) = calls st @ []"
    by (simp add: renderPortalStencil_def Let_def)
  then show ?thesis unfolding passes_within_def by force
next
  case (Some sc)
  from renderPortalStencil_calls [OF Some, of camera v]
  obtain xs where "calls (renderPortalStencil st p camera v) = calls st @ [MaskDraw sc xs camera v]"
    by blast
  moreover have "destination_passes [MaskDraw sc xs camera v] = []" by simp
  ultimately show ?thesis unfolding passes_within_def by force
qed

lemma passes_within_camera:
  "passes_within d n st (st\<lparr>portalCamera := c\<rparr>)"
  by (simp add: passes_within_def)

lemma passes_within_scene:
  assumes "d < r" and "r \<le> n"
  shows "passes_within d n st (renderSceneWithStencilTest st camera sc r f)"
proof -
  obtain ms where c: "calls (renderSceneWithStencilTest st camera sc r f)
      = calls st @ [SceneDraw sc ms camera r f]"
    using renderSceneWithStencilTest_fields(5) [of st camera sc r f] by blast
  have "\<forall>x\<in>set (destination_passes [SceneDraw sc ms camera r f]). d < x \<and> x \<le> n"
    using assms by (cases f) simp_all
  with c show ?thesis unfolding passes_within_def by blast
qed

lemma renderPortals_passes_within:
  shows "passes_within depth (maxRecursion fr) st (renderPortals fr camera w depth st)"
    and "depth < maxRecursion fr \<longrightarrow>
         passes_within depth (maxRecursion fr) st (renderPortals_loop fr camera ps depth st)"
proof (induction fr camera w depth st and fr camera ps depth st
       rule: renderPortals_renderPortals_loop.induct)
  case (1 fr camera currentWorld depth st)
  show ?case
  proof (cases "maxRecursion fr \<le> depth")
    case True
    then show ?thesis by (simp add: renderPortals.simps passes_within_refl)
  next
    case False
    with 1 show ?thesis by (simp add: renderPortals.simps)
  qed
next
  case (2 fr camera depth st)
  show ?case by (simp add: renderPortals_loop.simps passes_within_refl)
next
  case (3 fr camera p ps depth st)
  show ?case
  proof (intro impI)
    assume dlt: "depth < maxRecursion fr"
    show "passes_within depth (maxRecursion fr) st (renderPortals_loop fr camera (p # ps) depth st)"
    proof (cases "linkedPortal (portals st p)")
      case None
      with 3(1) dlt show ?thesis by (simp add: renderPortals_loop.simps)
    next
      case (Some dp)
      show ?thesis
      proof (cases "isPointInFront (portals st p) (position (camera_of fr camera st))")
        case False
        with 3(2) [OF Some] Some dlt show ?thesis by (simp add: renderPortals_loop.simps)
      next
        case True
        then have nn: "\<not> \<not> isPointInFront (portals st p) (position (camera_of fr camera st))"
          by simp
        show ?thesis
        proof (cases "findDestWorld (allWorlds fr) dp")
          case None
          with 3(3) [OF Some nn] Some True dlt show ?thesis
            by (simp add: renderPortals_loop.simps)
        next
          case dw: (Some destWorld)
          define x where "x = renderPortalStencil st p (camera_of fr camera st) (depth + 1)"
          define xa where "xa = getDestinationCameraTransform (portals x) p
            (position (camera_of fr camera x)) (quaternion (camera_of fr camera x))"
          define xb where "xb = x\<lparr>portalCamera := xa\<rparr>"
          define xc where "xc = renderPortals fr PortalCamera destWorld (depth + 1) xb"
          define xd where "xd = renderSceneWithStencilTest xc (portalCamera xc)
            (world_scene destWorld) (depth + 1) EqualStencilFunc"
          have eq: "renderPortals_loop fr camera (p # ps) depth st
                    = renderPortals_loop fr camera ps depth xd"
            using Some True dw
            by (simp add: renderPortals_loop.simps(2) [of fr camera p ps depth st] Let_def
                x_def xa_def xb_def xc_def xd_def)
          have s1: "passes_within depth (maxRecursion fr) st x"
            unfolding x_def by (rule passes_within_stencil)
          have s2: "passes_within depth (maxRecursion fr) x xb"
            unfolding xb_def by (rule passes_within_camera)
          have "passes_within (depth + 1) (maxRecursion fr) xb xc"
            unfolding xc_def by (rule 3(4) [OF Some nn dw x_def xa_def xb_def])
          then have s3: "passes_within depth (maxRecursion fr) xb xc"
            by (simp add: passes_within_mono)
          have s4: "passes_within depth (maxRecursion fr) xc xd"
            unfolding xd_def using dlt by (intro passes_within_scene) simp_all
          have s5: "passes_within depth (maxRecursion fr) xd
                      (renderPortals_loop fr camera ps depth xd)"
            using 3(5) [OF Some nn dw x_def xa_def xb_def xc_def xd_def] dlt by simp
          from s1 s2 s3 s4 s5 show ?thesis
            unfolding eq by (blast intro: passes_within_trans)
        qed
      qed
    qed
  qed
qed

lemma same_layout_transform:
  "same_layout ps ps' \<Longrightarrow>
   getDestinationCameraTransform ps' p v q = getDestinationCameraTransform ps p v q"
  by (simp add: same_layout_def getDestinationCameraTransform_def Let_def split: option.splits)

lemma same_layout_front:
  "same_layout ps ps' \<Longrightarrow> isPointInFront (ps' p) v = isPointInFront (ps p) v"
  by (simp add: same_layout_def isPointInFront_def)

lemma same_layout_linked:
  "same_layout ps ps' \<Longrightarrow> linkedPortal (ps' p) = linkedPortal (ps p)"
  by (simp add: same_layout_def)

lemma camera_of_stencil:
  "camera_of fr cam (renderPortalStencil st p c v) = camera_of fr cam st"
  by (cases cam) (simp_all add: renderPortalStencil_fields)

lemma front_run_ge: "d \<le> front_run fr ps a b d n"
proof (induction n arbitrary: d)
  case 0
  show ?case by simp
next
  case (Suc n)
  from Suc [of "Suc d"] show ?case by simp
qed

lemma front_run_le: "front_run fr ps a b d n \<le> d + n"
proof (induction n arbitrary: d)
  case 0
  show ?case by simp
next
  case (Suc n)
  from Suc [of "Suc d"] show ?case by simp
qed

lemma front_run_all:
  "(\<And>k. d \<le> k \<Longrightarrow> k < d + n \<Longrightarrow> camera_in_front fr ps a b k) \<Longrightarrow>
   front_run fr ps a b d n = d + n"
proof (induction n arbitrary: d)
  case 0
  show ?case by simp
next
  case (Suc n)
  have "camera_in_front fr ps a b d" by (rule Suc.prems) simp_all
  moreover have "front_run fr ps a b (Suc d) n = Suc d + n"
    by (rule Suc.IH, rule Suc.prems) simp_all
  ultimately show ?case by simp
qed

lemma pair_passes:
  assumes pp: "portal_pair fr ps a b wa wb"
  shows "d \<le> maxRecursion fr \<Longrightarrow> same_layout ps (portals st) \<Longrightarrow>
         camera_of fr cam st = loopCamera ps a b (mainCamera fr) d \<Longrightarrow>
         destination_passes (calls (renderPortals fr cam (if even d then wa else wb) d st))
           = destination_passes (calls st)
             @ rev [Suc d..<Suc (front_run fr ps a b d (maxRecursion fr - d))]"
proof (induction "maxRecursion fr - d" arbitrary: d st cam)
  case 0
  then have "maxRecursion fr \<le> d" by simp
  with 0 show ?case by (simp add: renderPortals.simps)
next
  case (Suc k)
  then have dlt: "d < maxRecursion fr" by simp
  have nd: "maxRecursion fr - d = Suc k" using Suc.hyps(2) by simp
  define p where "p = (if even d then a else b)"
  define dp where "dp = (if even d then b else a)"
  define w where "w = (if even d then wa else wb)"
  define dw where "dw = (if even d then wb else wa)"
  have wp: "world_portals w = [p]"
    using pp by (simp add: portal_pair_def w_def p_def)
  have lk: "linkedPortal (portals st p) = Some dp"
    using pp Suc.prems(2) by (simp add: portal_pair_def same_layout_linked p_def dp_def)
  have fr_eq: "isPointInFront (portals st p) (position (camera_of fr cam st))
               = camera_in_front fr ps a b d"
    using Suc.prems(2,3) by (simp add: camera_in_front_def same_layout_front p_def)
  have fw: "findDestWorld (allWorlds fr) dp = Some dw"
    using pp by (simp add: portal_pair_def dp_def dw_def)
  show ?case
  proof (cases "camera_in_front fr ps a b d")
    case False
    have "renderPortals fr cam w d st = st"
      using dlt wp lk fr_eq False
      by (simp add: renderPortals.simps [of fr cam w d st]
          renderPortals_loop.simps(2) [of fr cam p "[]" d st] renderPortals_loop.simps(1))
    with False show ?thesis unfolding w_def [symmetric] nd by simp
  next
    case True
    define x where "x = renderPortalStencil st p (camera_of fr cam st) (d + 1)"
    define xa where "xa = getDestinationCameraTransform (portals x) p
              (position (camera_of fr cam x)) (quaternion (camera_of fr cam x))"
    define xb where "xb = x\<lparr>portalCamera := xa\<rparr>"
    define xc where "xc = renderPortals fr PortalCamera dw (d + 1) xb"
    define xd where "xd = renderSceneWithStencilTest xc (portalCamera xc)
              (world_scene dw) (d + 1) EqualStencilFunc"
    define m where "m = front_run fr ps a b (Suc d) k"
    have eq: "renderPortals fr cam w d st = xd"
      using dlt wp lk fr_eq True fw
      by (simp add: renderPortals.simps [of fr cam w d st]
          renderPortals_loop.simps(2) [of fr cam p "[]" d st] renderPortals_loop.simps(1)
          Let_def x_def xa_def xb_def xc_def xd_def)
    have lx: "same_layout ps (portals x)"
      using Suc.prems(2) renderPortalStencil_fields(3) [of st p "camera_of fr cam st" "d + 1"]
      unfolding x_def by (rule same_layout_trans)
    have cx: "camera_of fr cam x = camera_of fr cam st"
      unfolding x_def by (rule camera_of_stencil)
    have xa_eq: "xa = loopCamera ps a b (mainCamera fr) (Suc d)"
      unfolding xa_def cx same_layout_transform [OF lx] Suc.prems(3)
      by (simp add: p_def)
    have lxb: "same_layout ps (portals xb)" using lx by (simp add: xb_def)
    have cxb: "camera_of fr PortalCamera xb = loopCamera ps a b (mainCamera fr) (Suc d)"
      by (simp add: xb_def xa_eq)
    have dw': "dw = (if even (Suc d) then wa else wb)" by (simp add: dw_def)
    have k: "k = maxRecursion fr - Suc d" using Suc.hyps(2) by simp
    have run: "front_run fr ps a b d (Suc k) = m" using True by (simp add: m_def)
    have mge: "Suc d \<le> m" unfolding m_def by (rule front_run_ge)
    have "destination_passes (calls xc)
            = destination_passes (calls xb) @ rev [Suc (Suc d)..<Suc m]"
      unfolding xc_def dw' m_def using Suc.hyps(1) [OF k _ lxb cxb] dlt k by simp
    moreover have "destination_passes (calls xb) = destination_passes (calls st)"
      by (simp add: xb_def x_def renderPortalStencil_fields)
    moreover have "destination_passes (calls xd) = destination_passes (calls xc) @ [Suc d]"
      by (simp add: xd_def renderSceneWithStencilTest_fields destination_passes_append)
    moreover have "[Suc d..<Suc m] = Suc d # [Suc (Suc d)..<Suc m]"
      using mge by (simp add: upt_conv_Cons)
    ultimately show ?thesis
      unfolding w_def [symmetric] eq nd run by simp
  qed
qed

text \<open>With normals in step, the camera that arrives through a portal is behind the other.\<close>

lemma in_step_behind:
  assumes l: "linkedPortal (ps a) = Some b"
    and sa: "in_step (ps a)" and sb: "in_step (ps b)"
    and f: "camera_in_front fr ps a b 0"
  shows "\<not> camera_in_front fr ps a b (Suc 0)"
proof -
  from sa have na: "normal (ps a) = applyQuaternion (Vector3 0 0 1) (quaternion (ps a))"
    by (simp add: in_step_def)
  from f have "0 < dot (sub (position (mainCamera fr)) (position (ps a))) (normal (ps a))"
    by (simp add: camera_in_front_def isPointInFront_def)
  with signed_distance_through [OF l na sb,
      of "position (mainCamera fr)" "quaternion (mainCamera fr)"]
  show ?thesis by (simp add: camera_in_front_def isPointInFront_def)
qed

lemma front_run_in_step:
  assumes l: "linkedPortal (ps a) = Some b"
    and sa: "in_step (ps a)" and sb: "in_step (ps b)"
  shows "front_run fr ps a b 0 n = (if 0 < n \<and> camera_in_front fr ps a b 0 then 1 else 0)"
proof (cases n)
  case 0
  then show ?thesis by simp
next
  case (Suc k)
  show ?thesis
  proof (cases "camera_in_front fr ps a b 0")
    case False
    with Suc show ?thesis by simp
  next
    case True
    from in_step_behind [OF l sa sb True]
    have "front_run fr ps a b (Suc 0) k = Suc 0" by (cases k) simp_all
    with True Suc show ?thesis by simp
  qed
qed

lemma render_calls:
  "\<exists>cs ms. calls (render fr w st)
      = calls st @ Clear True True True # cs
          @ [SceneDraw (world_scene w) ms (mainCamera fr) 0 NotEqualStencilFunc]
    \<and> calls (renderPortals fr MainCamera w 0
               (st\<lparr> autoClear := False, calls := calls st @ [Clear True True True] \<rparr>))
      = (calls st @ [Clear True True True]) @ cs
    \<and> (\<forall>r\<in>set (destination_passes cs). 0 < r \<and> r \<le> maxRecursion fr)"
proof -
  define st2 where "st2 = st\<lparr> autoClear := False, calls := calls st @ [Clear True True True] \<rparr>"
  from renderPortals_passes_within(1) [of 0 fr st2 MainCamera w]
  obtain cs where cs: "calls (renderPortals fr MainCamera w 0 st2) = calls st2 @ cs"
    "\<forall>r\<in>set (destination_passes cs). 0 < r \<and> r \<le> maxRecursion fr"
    unfolding passes_within_def by blast
  have "calls (render fr w st) = calls (renderPortals fr MainCamera w 0 st2) @
     [SceneDraw (world_scene w)
        (map (foldl (apply_stencil_test 0 NotEqualStencilFunc)
                (materials (renderPortals fr MainCamera w 0 st2))
                (scene_materials (renderPortals fr MainCamera w 0 st2) (world_scene w)))
           (scene_materials (renderPortals fr MainCamera w 0 st2) (world_scene w)))
        (mainCamera fr) 0 NotEqualStencilFunc]"
    by (simp add: render_def Let_def renderWorldWithStencil_def
        renderSceneWithStencilTest_fields st2_def)
  with cs show ?thesis unfolding st2_def by auto
qed

section \<open>The concrete frame\<close>

lemma loop_store_0: "loop_store 0 = loopA\<lparr>linkedPortal := Some 1\<rparr>"
  by (simp add: loop_store_def link_eq)
lemma loop_store_1: "loop_store (Suc 0) = loopB\<lparr>linkedPortal := Some 0\<rparr>"
  by (simp add: loop_store_def link_eq)

lemma loopA_fields:
  "position loopA = Vector3 0 0 0" "quaternion loopA = identityQ"
  "normal loopA = Vector3 0 0 1" "scene loopA = Some 0" "mesh_parent loopA = None"
  by (simp_all add: loopA_def scenarioA_def newPortal_def identityQ_def Let_def)

lemma loopB_fields:
  "position loopB = Vector3 0 0 10" "quaternion loopB = identityQ"
  "normal loopB = Vector3 0 0 (- 1)" "scene loopB = Some 1" "mesh_parent loopB = Some 1"
  by (simp_all add: loopB_def scenarioB_def newPortal_def identityQ_def Let_def)

lemma through_A: "getDestinationCameraTransform loop_store 0 (Vector3 0 1 (1/2)) q
   = \<lparr> position = Vector3 0 1 (19/2), quaternion = multiply (Quaternion 0 1 0 0) q \<rparr>"
  by (cases q) (simp add: getDestinationCameraTransform_def loop_store_0 loop_store_1 loopA_fields loopB_fields
     Let_def flipY_eq identityQ_def)

lemma through_B: "getDestinationCameraTransform loop_store (Suc 0) (Vector3 0 1 (19/2)) q
   = \<lparr> position = Vector3 0 1 (1/2), quaternion = multiply (Quaternion 0 1 0 0) q \<rparr>"
  by (cases q) (simp add: getDestinationCameraTransform_def loop_store_0 loop_store_1 loopA_fields loopB_fields
     Let_def flipY_eq identityQ_def)

lemma loopCamera_position:
  "position (loopCamera loop_store 0 (Suc 0) viewer k) = (if even k then Vector3 0 1 (1/2) else Vector3 0 1 (19/2))"
proof (induction k)
  case 0
  show ?case by (simp add: viewer_def)
next
  case (Suc k)
  then show ?case by (auto simp: through_A through_B)
qed

lemma demo_portal_pair: "portal_pair (demo_frame n) loop_store 0 (Suc 0) worldA worldB"
  by (simp add: portal_pair_def demo_frame_def worldA_def worldB_def loop_store_0 loop_store_1)

lemma demo_camera_in_front: "camera_in_front (demo_frame n) loop_store 0 (Suc 0) k"
  by (simp add: camera_in_front_def demo_frame_def loop_store_0 loop_store_1
      loopCamera_position isPointInFront_def loopA_fields loopB_fields)

lemma pair_store_0: "pair_store 0 = loopA\<lparr>linkedPortal := Some 1\<rparr>"
  by (simp add: pair_store_def link_eq)

lemma pair_store_1: "pair_store (Suc 0) = pairB\<lparr>linkedPortal := Some 0\<rparr>"
  by (simp add: pair_store_def link_eq)

lemma pairB_fields:
  "position pairB = Vector3 0 0 10" "quaternion pairB = Quaternion 0 1 0 0"
  "normal pairB = Vector3 0 0 (- 1)" "scene pairB = Some 1" "mesh_parent pairB = Some 1"
  by (simp_all add: pairB_def scenarioB_def newPortal_def Let_def)

lemma pair_portal_pair: "portal_pair (demo_frame n) pair_store 0 (Suc 0) worldA worldB"
  by (simp add: portal_pair_def demo_frame_def worldA_def worldB_def pair_store_0 pair_store_1)

lemma pair_in_step: "in_step (pair_store 0)" "in_step (pair_store (Suc 0))"
  by (simp_all add: in_step_def unitQ_def pair_store_0 pair_store_1 loopA_fields pairB_fields
      identityQ_def)

lemma pair_camera_in_front: "camera_in_front (demo_frame n) pair_store 0 (Suc 0) 0"
  by (simp add: camera_in_front_def demo_frame_def pair_store_0 isPointInFront_def
      loopA_fields viewer_def)

lemma shared_store_0: "shared_store 0 = loopA\<lparr>linkedPortal := Some 1\<rparr>"
  by (simp add: shared_store_def link_eq)

lemma shared_store_1: "shared_store (Suc 0) = sharedB\<lparr>linkedPortal := Some 0\<rparr>"
  by (simp add: shared_store_def link_eq)

lemma sharedB_fields:
  "position sharedB = Vector3 0 0 10" "quaternion sharedB = Quaternion 0 1 0 0"
  "normal sharedB = Vector3 0 0 (- 1)" "scene sharedB = Some 0" "mesh_parent sharedB = None"
  by (simp_all add: sharedB_def scenarioB_def newPortal_def Let_def)

text \<open>
  The renderer calls of the frame with both portals in one world and \<open>maxRecursion = 1\<close>:
  two mask draws and two destination passes.
\<close>

lemma shared_render_passes:
  "destination_passes (calls_since shared_state (render shared_frame worldAB shared_state))
     = [1, 1]"
  apply (simp add: calls_since_def render_def renderWorldWithStencil_def Let_def
      renderPortals.simps renderPortals_loop.simps shared_frame_def worldAB_def
      shared_state_def demo_state_def
      shared_store_0 shared_store_1 loopA_fields sharedB_fields isPointInFront_def viewer_def)
  apply (simp add: renderPortalStencil_def add_mesh_def remove_mesh_def demo_children_def
      renderSceneWithStencilTest_def scene_materials_def apply_stencil_test_def
      reset_stencil_test_def plain_material_def getDestinationCameraTransform_def
      flipY_eq identityQ_def shared_store_0 shared_store_1 loopA_fields sharedB_fields Let_def
      isPointInFront_def renderPortals.simps renderPortals_loop.simps)
  done

lemma calls_since_append: "calls st' = calls st @ cs \<Longrightarrow> calls_since st st' = cs"
  by (simp add: calls_since_def)

text \<open>The renderer calls of the concrete frame with \<open>maxRecursion = 1\<close>.\<close>

lemma demo_render_calls:
  "calls (render (demo_frame 1) worldA demo_state) =
     [Clear True True True,
      MaskDraw 0 [Mesh 0 [Mat 0], PortalMesh 0] viewer 1,
      SceneDraw 1 [\<lparr>stencilWrite = False, stencilFunc = EqualStencilFunc, stencilRef = 1\<rparr>,
                   \<lparr>stencilWrite = False, stencilFunc = EqualStencilFunc, stencilRef = 1\<rparr>]
        \<lparr>position = Vector3 0 1 (19 / 2), quaternion = Quaternion 0 1 0 0\<rparr> 1 EqualStencilFunc,
      SceneDraw 0 [\<lparr>stencilWrite = False, stencilFunc = NotEqualStencilFunc, stencilRef = 0\<rparr>]
        viewer 0 NotEqualStencilFunc]"
  by (simp add: render_def renderWorldWithStencil_def Let_def renderPortals.simps
      renderPortals_loop.simps demo_frame_def worldA_def worldB_def demo_state_def
      loop_store_0 loop_store_1 loopA_fields loopB_fields isPointInFront_def viewer_def
      renderPortalStencil_def add_mesh_def remove_mesh_def demo_children_def
      renderSceneWithStencilTest_def scene_materials_def apply_stencil_test_def
      reset_stencil_test_def plain_material_def getDestinationCameraTransform_def
      flipY_eq identityQ_def)

lemma render_frame:
  "\<exists>cs ms. calls_since st (render fr v st) = Clear True True True # cs
          @ [SceneDraw (world_scene v) ms (mainCamera fr) 0 NotEqualStencilFunc]
       \<and> destination_passes (calls_since st (render fr v st)) = destination_passes cs
       \<and> calls (renderPortals fr MainCamera v 0
                  (st\<lparr> autoClear := False, calls := calls st @ [Clear True True True] \<rparr>))
           = (calls st @ [Clear True True True]) @ cs
       \<and> (\<forall>r\<in>set (destination_passes cs). 0 < r \<and> r \<le> maxRecursion fr)"
proof -
  from render_calls [of fr v st]
  obtain cs ms where c:
    "calls (render fr v st) = calls st @ Clear True True True # cs
        @ [SceneDraw (world_scene v) ms (mainCamera fr) 0 NotEqualStencilFunc]"
    "calls (renderPortals fr MainCamera v 0
              (st\<lparr> autoClear := False, calls := calls st @ [Clear True True True] \<rparr>))
       = (calls st @ [Clear True True True]) @ cs"
    "\<forall>r\<in>set (destination_passes cs). 0 < r \<and> r \<le> maxRecursion fr"
    by blast
  have since: "calls_since st (render fr v st) = Clear True True True # cs
        @ [SceneDraw (world_scene v) ms (mainCamera fr) 0 NotEqualStencilFunc]"
    using c(1) by (rule calls_since_append)
  have dp: "destination_passes (calls_since st (render fr v st)) = destination_passes cs"
    unfolding since by (simp add: destination_passes_append)
  from since dp c(2,3) show ?thesis by blast
qed

lemma render_pair_passes:
  assumes pp: "portal_pair fr (portals st) a b wa wb"
  shows "destination_passes (calls_since st (render fr wa st))
           = rev [1..<Suc (front_run fr (portals st) a b 0 (maxRecursion fr))]"
proof -
  define st2 where "st2 = st\<lparr> autoClear := False, calls := calls st @ [Clear True True True] \<rparr>"
  from render_frame [of st fr wa] obtain cs where c:
    "destination_passes (calls_since st (render fr wa st)) = destination_passes cs"
    "calls (renderPortals fr MainCamera wa 0 st2) = (calls st @ [Clear True True True]) @ cs"
    unfolding st2_def by blast
  have lay: "same_layout (portals st) (portals st2)"
    by (simp add: st2_def same_layout_refl)
  have cam: "camera_of fr MainCamera st2 = loopCamera (portals st) a b (mainCamera fr) 0"
    by simp
  from pair_passes [OF pp _ lay cam]
  have "destination_passes (calls (renderPortals fr MainCamera wa 0 st2))
        = destination_passes (calls st2)
          @ rev [Suc 0..<Suc (front_run fr (portals st) a b 0 (maxRecursion fr))]"
    by simp
  then have "destination_passes cs
        = rev [Suc 0..<Suc (front_run fr (portals st) a b 0 (maxRecursion fr))]"
    unfolding c(2) by (simp add: destination_passes_append st2_def)
  with c(1) show ?thesis by simp
qed

text \<open>
  In the depth convention from \<open>-1\<close> to \<open>1\<close> the oblique projection onto the near plane gives
  the projection matrix back.
\<close>

lemma webgl_camera_identity:
  "computeObliqueProjectionMatrix webgl_camera (nearPlane 1) = projectionMatrix webgl_camera"
proof -
  have pm: "projectionMatrix webgl_camera
              = makePerspective (- 1) 1 1 (- 1) 1 3 WebGLCoordinateSystem"
    by (simp add: webgl_camera_def)
  have v: "plane_applyMatrix4 (nearPlane 1) (matrixWorldInverse webgl_camera) = nearPlane 1"
    by (simp add: webgl_camera_def plane_identity)
  show ?thesis by (rule oblique_core [OF _ _ _ _ pm v]) simp_all
qed

section \<open>The claims\<close>

text \<open>
  C1. \<open>getDestinationCameraTransform\<close> of a linked portal is the five-step algorithm of the
  specification: subtract the source position, rotate by the inverse of the source
  orientation, negate local X and Z, rotate by the destination orientation and add the
  destination position; the orientation is destination \<open>\<circ>\<close> half turn about the vertical
  axis \<open>\<circ>\<close> inverse source \<open>\<circ>\<close> viewer.  In the scenario (A at the origin with identity
  orientation, linked to B at (0,0,10) turned by 180 degrees about the vertical axis) the
  viewer at (0,1,-0.5) with identity orientation is mapped to the position (0,1,9.5) and
  to an orientation that is the identity rotation: the quaternion is \<open>(0,0,0,-1)\<close>, which
  leaves every vector where it is.
\<close>

theorem C1_destination_camera_transform:
  "(linkedPortal (st this) = Some d \<longrightarrow>
      getDestinationCameraTransform st this p q
        = spec_destination_transform (st this) (st d) p q)
   \<and> position (scenario_store 0) = Vector3 0 0 0
   \<and> quaternion (scenario_store 0) = identityQ
   \<and> linkedPortal (scenario_store 0) = Some 1
   \<and> position (scenario_store 1) = Vector3 0 0 10
   \<and> quaternion (scenario_store 1) = setFromAxisAngle (Vector3 0 1 0) pi
   \<and> position (getDestinationCameraTransform scenario_store 0 (Vector3 0 1 (- 1 / 2)) identityQ)
       = Vector3 0 1 (19 / 2)
   \<and> quaternion (getDestinationCameraTransform scenario_store 0 (Vector3 0 1 (- 1 / 2)) identityQ)
       = Quaternion 0 0 0 (- 1)
   \<and> applyQuaternion v
        (quaternion (getDestinationCameraTransform scenario_store 0 (Vector3 0 1 (- 1 / 2)) identityQ))
       = v"
proof -
  have layout: "position (scenario_store 0) = Vector3 0 0 0"
    "quaternion (scenario_store 0) = identityQ"
    "linkedPortal (scenario_store 0) = Some 1"
    "position (scenario_store 1) = Vector3 0 0 10"
    "quaternion (scenario_store 1) = setFromAxisAngle (Vector3 0 1 0) pi"
    using scenario_store_0 scenario_store_1
    by (simp_all add: scenarioA_def scenarioB_def newPortal_def Let_def)
  have general: "linkedPortal (st this) = Some d \<longrightarrow>
      getDestinationCameraTransform st this p q
        = spec_destination_transform (st this) (st d) p q"
    by (simp add: transform_refines_spec)
  have result: "position (getDestinationCameraTransform scenario_store 0
                   (Vector3 0 1 (- 1 / 2)) identityQ) = Vector3 0 1 (19 / 2)"
    "quaternion (getDestinationCameraTransform scenario_store 0
                   (Vector3 0 1 (- 1 / 2)) identityQ) = Quaternion 0 0 0 (- 1)"
    by (simp_all only: scenario_transform pose.simps)
  have rot: "applyQuaternion v
        (quaternion (getDestinationCameraTransform scenario_store 0
                       (Vector3 0 1 (- 1 / 2)) identityQ)) = v"
    by (simp only: result minus_one_rotation)
  from general layout result rot show ?thesis by blast
qed

theorem C1_destination_camera_transform_witness:
  "linkedPortal (scenario_store 0) = Some 1 \<and>
   getDestinationCameraTransform scenario_store 0 (Vector3 0 1 (- 1 / 2)) identityQ
     = spec_destination_transform (scenario_store 0) (scenario_store 1)
         (Vector3 0 1 (- 1 / 2)) identityQ"
  using C1_destination_camera_transform
    [of scenario_store 0 1 "Vector3 0 1 (- 1 / 2)" identityQ "Vector3 0 0 0"]
  by simp

text \<open>
  C5. For every point and every two portal poses with unit quaternions, taking the point
  through the pair from A to B and then from B to A gives the point back.
\<close>

theorem C5_point_round_trip:
  assumes "unitQ (quaternion A)" and "unitQ (quaternion B)"
  shows "transformPointThroughPortal (transformPointThroughPortal p A B) B A = p"
  using assms
  by (simp add: transformPointThroughPortal_def Let_def sub_add_cancel_v add_sub_cancel_v
      applyQuaternion_invert_cancel invert_applyQuaternion_cancel negateXZ_involution)

theorem C5_point_round_trip_witness:
  "unitQ (quaternion \<lparr>position = Vector3 1 2 3, quaternion = Quaternion 0 1 0 0\<rparr>)
   \<and> unitQ (quaternion \<lparr>position = Vector3 0 0 10, quaternion = Quaternion (3/5) 0 0 (4/5)\<rparr>)
   \<and> transformPointThroughPortal
       (transformPointThroughPortal (Vector3 7 (- 1) 2)
          \<lparr>position = Vector3 1 2 3, quaternion = Quaternion 0 1 0 0\<rparr>
          \<lparr>position = Vector3 0 0 10, quaternion = Quaternion (3/5) 0 0 (4/5)\<rparr>)
       \<lparr>position = Vector3 0 0 10, quaternion = Quaternion (3/5) 0 0 (4/5)\<rparr>
       \<lparr>position = Vector3 1 2 3, quaternion = Quaternion 0 1 0 0\<rparr>
     = Vector3 7 (- 1) 2"
proof -
  have a: "unitQ (quaternion \<lparr>position = Vector3 1 2 3, quaternion = Quaternion 0 1 0 0\<rparr>)"
    by (simp add: unitQ_def)
  have b: "unitQ (quaternion \<lparr>position = Vector3 0 0 10, quaternion = Quaternion (3/5) 0 0 (4/5)\<rparr>)"
    by (simp add: unitQ_def)
  from C5_point_round_trip [OF a b, of "Vector3 7 (- 1) 2"] a b show ?thesis by blast
qed

text \<open>
  C8. A portal whose link is unset returns the viewer's position and orientation unchanged.
  The function has no failing branch: it is total, and this is its value.
\<close>

theorem C8_unlinked_passthrough:
  "linkedPortal (st this) = None \<Longrightarrow>
   getDestinationCameraTransform st this p q = \<lparr> position = p, quaternion = q \<rparr>"
  by (simp add: getDestinationCameraTransform_def)

theorem C8_unlinked_passthrough_witness:
  "linkedPortal (unlinked_store 0) = None \<and>
   getDestinationCameraTransform unlinked_store 0 (Vector3 0 1 (- 1 / 2)) (Quaternion 0 1 0 0)
     = \<lparr> position = Vector3 0 1 (- 1 / 2), quaternion = Quaternion 0 1 0 0 \<rparr>"
proof -
  have h: "linkedPortal (unlinked_store 0) = None"
    by (simp add: unlinked_store_def scenarioA_def newPortal_def)
  from C8_unlinked_passthrough [of unlinked_store 0, OF h] h show ?thesis by blast
qed

text \<open>
  C10. For every direction and every two portal orientations that are unit quaternions,
  the direction taken through the pair has the length of the direction.
\<close>

theorem C10_direction_length:
  assumes "unitQ (quaternion S)" and "unitQ (quaternion D)"
  shows "length_v (transformDirectionThroughPortal v S D) = length_v v"
  using assms
  by (simp add: transformDirectionThroughPortal_def Let_def length_applyQuaternion
      length_negateXZ unitQ_invert)

theorem C10_direction_length_witness:
  "unitQ (quaternion \<lparr>position = Vector3 1 2 3, quaternion = Quaternion 0 1 0 0\<rparr>)
   \<and> unitQ (quaternion \<lparr>position = Vector3 0 0 10, quaternion = Quaternion (3/5) 0 0 (4/5)\<rparr>)
   \<and> length_v (transformDirectionThroughPortal (Vector3 3 0 4)
        \<lparr>position = Vector3 1 2 3, quaternion = Quaternion 0 1 0 0\<rparr>
        \<lparr>position = Vector3 0 0 10, quaternion = Quaternion (3/5) 0 0 (4/5)\<rparr>)
     = length_v (Vector3 3 0 4)"
proof -
  have a: "unitQ (quaternion \<lparr>position = Vector3 1 2 3, quaternion = Quaternion 0 1 0 0\<rparr>)"
    by (simp add: unitQ_def)
  have b: "unitQ (quaternion \<lparr>position = Vector3 0 0 10, quaternion = Quaternion (3/5) 0 0 (4/5)\<rparr>)"
    by (simp add: unitQ_def)
  from C10_direction_length [OF a b, of "Vector3 3 0 4"] a b show ?thesis by blast
qed

text \<open>
  C2. After all portal passes the current world is to be drawn under the test "not equal"
  with the reference value 1.  What the code does: the last renderer call of \<open>render\<close> is
  the draw of the current world under \<open>NotEqualStencilFunc\<close> with the reference value 0,
  whereas the single-pair entry point \<open>renderSimple\<close> ends with the same draw under the
  reference value 1.  In the concrete frame with \<open>maxRecursion = 1\<close> the last call draws the
  one material of scene 0 under "not equal to 0".
\<close>

theorem C2_final_pass_reference:
  "call_stencil (last (calls (render fr w st))) = Some (0, NotEqualStencilFunc)
   \<and> call_stencil (last (calls (renderSimple camera currentScene destinationScene p st)))
       = Some (1, NotEqualStencilFunc)
   \<and> last (calls (render (demo_frame 1) worldA demo_state))
       = SceneDraw 0 [\<lparr>stencilWrite = False, stencilFunc = NotEqualStencilFunc, stencilRef = 0\<rparr>]
           viewer 0 NotEqualStencilFunc"
proof -
  have general: "call_stencil (last (calls (render fr w st))) = Some (0, NotEqualStencilFunc)"
    by (simp add: render_def renderWorldWithStencil_def Let_def
        renderSceneWithStencilTest_fields)
  have simple: "call_stencil (last (calls (renderSimple camera currentScene destinationScene p st)))
       = Some (1, NotEqualStencilFunc)"
    by (simp add: renderSimple_def Let_def renderSceneWithStencilTest_fields)
  have concrete: "last (calls (render (demo_frame 1) worldA demo_state))
       = SceneDraw 0 [\<lparr>stencilWrite = False, stencilFunc = NotEqualStencilFunc, stencilRef = 0\<rparr>]
           viewer 0 NotEqualStencilFunc"
    unfolding demo_render_calls by simp
  from general simple concrete show ?thesis by blast
qed

text \<open>
  C3, as stated, fails for two portals linked to each other that are listed in one world
  and are both in front of the camera: with \<open>maxRecursion = 1\<close> the frame performs two
  destination passes, both with the marker 1.
\<close>

theorem C3_shared_world_counterexample:
  "linkedPortal (portals shared_state 0) = Some 1
   \<and> linkedPortal (portals shared_state 1) = Some 0
   \<and> in_step (portals shared_state 0) \<and> in_step (portals shared_state 1)
   \<and> isPointInFront (portals shared_state 0) (position (mainCamera shared_frame))
   \<and> isPointInFront (portals shared_state 1) (position (mainCamera shared_frame))
   \<and> world_portals worldAB = [0, 1]
   \<and> maxRecursion shared_frame = 1
   \<and> destination_passes (calls_since shared_state (render shared_frame worldAB shared_state))
       = [1, 1]"
proof -
  have facts: "linkedPortal (portals shared_state 0) = Some 1"
    "linkedPortal (portals shared_state 1) = Some 0"
    "in_step (portals shared_state 0)" "in_step (portals shared_state 1)"
    "isPointInFront (portals shared_state 0) (position (mainCamera shared_frame))"
    "isPointInFront (portals shared_state 1) (position (mainCamera shared_frame))"
    "world_portals worldAB = [0, 1]" "maxRecursion shared_frame = 1"
    by (simp_all add: shared_state_def shared_store_0 shared_store_1 loopA_fields
        sharedB_fields in_step_def unitQ_def identityQ_def isPointInFront_def
        shared_frame_def viewer_def worldAB_def)
  from facts shared_render_passes show ?thesis by blast
qed

text \<open>
  C3, amended.  \<open>render\<close> returns for every input: the recursion of \<open>renderPortals\<close> is
  bounded by \<open>maxRecursion\<close> (its termination proof is the measure \<open>maxRecursion - depth\<close>),
  also in a cycle of links.  For every input the marker of each destination pass lies
  between 1 and \<open>maxRecursion = N\<close>, so passes nest at most \<open>N\<close> deep, and with \<open>N = 0\<close> the
  frame is the clear and the draw of the current world only.  For two portals linked to
  each other, each alone in its own world that the registry finds, the frame performs
  exactly \<open>m\<close> destination passes, nested with the markers \<open>m, \<dots>, 1\<close>, where \<open>m \<le> N\<close> counts
  the depths from 0 on at which the camera used is in front of the portal it looks
  through: \<open>m = N\<close> when every camera used is in front, and \<open>m\<close> is 1 or 0 when the normals
  are in step with the orientations, since the camera that arrives through one portal is
  then behind the other.
\<close>

theorem C3_recursion_bound:
  "(portal_pair fr (portals st) a b wa wb \<longrightarrow>
      destination_passes (calls_since st (render fr wa st))
        = rev [1..<Suc (front_run fr (portals st) a b 0 (maxRecursion fr))]
      \<and> front_run fr (portals st) a b 0 (maxRecursion fr) \<le> maxRecursion fr
      \<and> ((\<forall>k<maxRecursion fr. camera_in_front fr (portals st) a b k) \<longrightarrow>
           destination_passes (calls_since st (render fr wa st))
             = rev [1..<Suc (maxRecursion fr)]
           \<and> length (destination_passes (calls_since st (render fr wa st)))
               = maxRecursion fr)
      \<and> (in_step (portals st a) \<and> in_step (portals st b) \<longrightarrow>
           destination_passes (calls_since st (render fr wa st))
             = (if 0 < maxRecursion fr \<and> camera_in_front fr (portals st) a b 0
                then [1] else [])))
   \<and> (\<forall>r\<in>set (destination_passes (calls_since st (render fr w st))).
         1 \<le> r \<and> r \<le> maxRecursion fr)
   \<and> (maxRecursion fr = 0 \<longrightarrow>
        (\<exists>ms. calls_since st (render fr w st) =
           [Clear True True True,
            SceneDraw (world_scene w) ms (mainCamera fr) 0 NotEqualStencilFunc]))"
proof -
  define st2 where "st2 = st\<lparr> autoClear := False, calls := calls st @ [Clear True True True] \<rparr>"
  have bound: "\<forall>r\<in>set (destination_passes (calls_since st (render fr w st))).
         1 \<le> r \<and> r \<le> maxRecursion fr"
    using render_frame [of st fr w] by force
  have zero: "maxRecursion fr = 0 \<longrightarrow>
        (\<exists>ms. calls_since st (render fr w st) =
           [Clear True True True,
            SceneDraw (world_scene w) ms (mainCamera fr) 0 NotEqualStencilFunc])"
  proof
    assume z: "maxRecursion fr = 0"
    from render_frame [of st fr w] obtain cs ms where c:
      "calls_since st (render fr w st) = Clear True True True # cs
          @ [SceneDraw (world_scene w) ms (mainCamera fr) 0 NotEqualStencilFunc]"
      "calls (renderPortals fr MainCamera w 0 st2) = (calls st @ [Clear True True True]) @ cs"
      unfolding st2_def by blast
    have "renderPortals fr MainCamera w 0 st2 = st2" using z by (simp add: renderPortals.simps)
    with c(2) have "cs = []" by (simp add: st2_def)
    with c(1) show "\<exists>ms. calls_since st (render fr w st) =
           [Clear True True True,
            SceneDraw (world_scene w) ms (mainCamera fr) 0 NotEqualStencilFunc]"
      by simp
  qed
  have pair: "portal_pair fr (portals st) a b wa wb \<longrightarrow>
      destination_passes (calls_since st (render fr wa st))
        = rev [1..<Suc (front_run fr (portals st) a b 0 (maxRecursion fr))]
      \<and> front_run fr (portals st) a b 0 (maxRecursion fr) \<le> maxRecursion fr
      \<and> ((\<forall>k<maxRecursion fr. camera_in_front fr (portals st) a b k) \<longrightarrow>
           destination_passes (calls_since st (render fr wa st))
             = rev [1..<Suc (maxRecursion fr)]
           \<and> length (destination_passes (calls_since st (render fr wa st)))
               = maxRecursion fr)
      \<and> (in_step (portals st a) \<and> in_step (portals st b) \<longrightarrow>
           destination_passes (calls_since st (render fr wa st))
             = (if 0 < maxRecursion fr \<and> camera_in_front fr (portals st) a b 0
                then [1] else []))"
  proof
    assume pp: "portal_pair fr (portals st) a b wa wb"
    have p1: "destination_passes (calls_since st (render fr wa st))
        = rev [1..<Suc (front_run fr (portals st) a b 0 (maxRecursion fr))]"
      by (rule render_pair_passes [OF pp])
    have p2: "front_run fr (portals st) a b 0 (maxRecursion fr) \<le> maxRecursion fr"
      using front_run_le [of fr "portals st" a b 0 "maxRecursion fr"] by simp
    have p3: "(\<forall>k<maxRecursion fr. camera_in_front fr (portals st) a b k) \<longrightarrow>
           destination_passes (calls_since st (render fr wa st))
             = rev [1..<Suc (maxRecursion fr)]
           \<and> length (destination_passes (calls_since st (render fr wa st)))
               = maxRecursion fr"
    proof
      assume all: "\<forall>k<maxRecursion fr. camera_in_front fr (portals st) a b k"
      have "front_run fr (portals st) a b 0 (maxRecursion fr) = 0 + maxRecursion fr"
        by (rule front_run_all) (use all in simp)
      with p1 show "destination_passes (calls_since st (render fr wa st))
             = rev [1..<Suc (maxRecursion fr)]
           \<and> length (destination_passes (calls_since st (render fr wa st)))
               = maxRecursion fr"
        by simp
    qed
    have p4: "in_step (portals st a) \<and> in_step (portals st b) \<longrightarrow>
           destination_passes (calls_since st (render fr wa st))
             = (if 0 < maxRecursion fr \<and> camera_in_front fr (portals st) a b 0
                then [1] else [])"
    proof
      assume s: "in_step (portals st a) \<and> in_step (portals st b)"
      from pp have l: "linkedPortal (portals st a) = Some b" by (simp add: portal_pair_def)
      from front_run_in_step
        [where ps = "portals st" and a = a and b = b and fr = fr and n = "maxRecursion fr"] l s
      have "front_run fr (portals st) a b 0 (maxRecursion fr)
            = (if 0 < maxRecursion fr \<and> camera_in_front fr (portals st) a b 0 then 1 else 0)"
        by blast
      with p1 show "destination_passes (calls_since st (render fr wa st))
             = (if 0 < maxRecursion fr \<and> camera_in_front fr (portals st) a b 0
                then [1] else [])"
        by simp
    qed
    from p1 p2 p3 p4 show "destination_passes (calls_since st (render fr wa st))
        = rev [1..<Suc (front_run fr (portals st) a b 0 (maxRecursion fr))]
      \<and> front_run fr (portals st) a b 0 (maxRecursion fr) \<le> maxRecursion fr
      \<and> ((\<forall>k<maxRecursion fr. camera_in_front fr (portals st) a b k) \<longrightarrow>
           destination_passes (calls_since st (render fr wa st))
             = rev [1..<Suc (maxRecursion fr)]
           \<and> length (destination_passes (calls_since st (render fr wa st)))
               = maxRecursion fr)
      \<and> (in_step (portals st a) \<and> in_step (portals st b) \<longrightarrow>
           destination_passes (calls_since st (render fr wa st))
             = (if 0 < maxRecursion fr \<and> camera_in_front fr (portals st) a b 0
                then [1] else []))"
      by blast
  qed
  from pair bound zero show ?thesis by blast
qed

theorem C3_recursion_bound_witness:
  "portal_pair (demo_frame 3) (portals demo_state) 0 1 worldA worldB
   \<and> camera_in_front (demo_frame 3) (portals demo_state) 0 1 0
   \<and> camera_in_front (demo_frame 3) (portals demo_state) 0 1 1
   \<and> camera_in_front (demo_frame 3) (portals demo_state) 0 1 2
   \<and> destination_passes (calls_since demo_state (render (demo_frame 3) worldA demo_state))
       = [3, 2, 1]
   \<and> portal_pair (demo_frame 3) (portals pair_state) 0 1 worldA worldB
   \<and> in_step (portals pair_state 0) \<and> in_step (portals pair_state 1)
   \<and> camera_in_front (demo_frame 3) (portals pair_state) 0 1 0
   \<and> destination_passes (calls_since pair_state (render (demo_frame 3) worldA pair_state))
       = [1]
   \<and> maxRecursion (demo_frame 0) = 0
   \<and> (\<exists>ms. calls_since demo_state (render (demo_frame 0) worldA demo_state) =
           [Clear True True True, SceneDraw 0 ms viewer 0 NotEqualStencilFunc])"
proof -
  have pd: "portals demo_state = loop_store" by (simp add: demo_state_def)
  have pq: "portals pair_state = pair_store" by (simp add: pair_state_def)
  have m3: "maxRecursion (demo_frame 3) = 3" and m0: "maxRecursion (demo_frame 0) = 0"
    by (simp_all add: demo_frame_def)
  have up: "rev [1..<Suc 3] = [3, 2, 1::nat]" by (simp add: upt_rec)
  have pp: "portal_pair (demo_frame 3) (portals demo_state) 0 1 worldA worldB"
    using demo_portal_pair [of 3] by (simp add: pd)
  have cf: "camera_in_front (demo_frame 3) (portals demo_state) 0 1 k" for k
    using demo_camera_in_front [of 3 k] by (simp add: pd)
  have all: "\<forall>k<maxRecursion (demo_frame 3).
               camera_in_front (demo_frame 3) (portals demo_state) 0 1 k"
    using cf by blast
  note stale = mp [OF conjunct1
      [OF C3_recursion_bound [of "demo_frame 3" demo_state 0 1 worldA worldB worldA]] pp]
  note stale_all = mp [OF conjunct1 [OF conjunct2 [OF conjunct2 [OF stale]]] all]
  have a: "destination_passes (calls_since demo_state (render (demo_frame 3) worldA demo_state))
       = [3, 2, 1]"
    using conjunct1 [OF stale_all] unfolding m3 up .
  have qq: "portal_pair (demo_frame 3) (portals pair_state) 0 1 worldA worldB"
    using pair_portal_pair [of 3] by (simp add: pq)
  have qs: "in_step (portals pair_state 0)" "in_step (portals pair_state 1)"
    using pair_in_step by (simp_all add: pq)
  have qf: "camera_in_front (demo_frame 3) (portals pair_state) 0 1 0"
    using pair_camera_in_front [of 3] by (simp add: pq)
  note canon = mp [OF conjunct1
      [OF C3_recursion_bound [of "demo_frame 3" pair_state 0 1 worldA worldB worldA]] qq]
  note canon_step = mp [OF conjunct2 [OF conjunct2 [OF conjunct2 [OF canon]]]
      conjI [OF qs(1) qs(2)]]
  have b: "destination_passes (calls_since pair_state (render (demo_frame 3) worldA pair_state))
       = [1]"
    using canon_step qf unfolding m3 by simp
  note zero = mp [OF conjunct2 [OF conjunct2
      [OF C3_recursion_bound [of "demo_frame 0" demo_state 0 1 worldA worldB worldA]]] m0]
  have c: "\<exists>ms. calls_since demo_state (render (demo_frame 0) worldA demo_state) =
           [Clear True True True, SceneDraw 0 ms viewer 0 NotEqualStencilFunc]"
    using zero by (simp add: worldA_def demo_frame_def)
  show ?thesis
    by (intro conjI) (rule pp cf a qq qs qf b m0 c)+
qed

text \<open>
  C4. If the clip plane equals the near plane of the camera, in camera space, the oblique
  projection is the projection matrix of the camera.  What the code does on a camera of
  this program: the renderer is a \<^verbatim>\<open>WebGPURenderer\<close>, whose cameras have the depth convention
  of \<^verbatim>\<open>WebGPUCoordinateSystem\<close>, while the function is written for depth from \<open>-1\<close> to \<open>1\<close>.
  With near plane 1 and far plane 3 the clip plane is the near plane in camera space, the
  third row of the result is \<open>(0, 0, -2, -3)\<close> against \<open>(0, 0, -3/2, -3/2)\<close> of the camera,
  a point of the given plane gets the depth \<open>-1\<close> instead of \<open>0\<close>, and the depth \<open>0\<close> is
  reached at \<open>z = -3/2\<close>: the near plane is not the given plane.
\<close>

theorem C4_webgpu_near_plane:
  "plane_applyMatrix4 (nearPlane 1) (matrixWorldInverse webgpu_camera) = nearPlane 1
   \<and> projectionMatrix webgpu_camera
       = [1, 0, 0, 0, 0, 1, 0, 0, 0, 0, - 3 / 2, - 1, 0, 0, - 3 / 2, 0]
   \<and> computeObliqueProjectionMatrix webgpu_camera (nearPlane 1)
       = [1, 0, 0, 0, 0, 1, 0, 0, 0, 0, - 2, - 1, 0, 0, - 3, 0]
   \<and> computeObliqueProjectionMatrix webgpu_camera (nearPlane 1)
       \<noteq> projectionMatrix webgpu_camera
   \<and> v_z (applyMatrix4 (Vector3 0 0 (- 1)) (projectionMatrix webgpu_camera)) = 0
   \<and> v_z (applyMatrix4 (Vector3 0 0 (- 1))
            (computeObliqueProjectionMatrix webgpu_camera (nearPlane 1))) = - 1
   \<and> v_z (applyMatrix4 (Vector3 0 0 (- 3 / 2))
            (computeObliqueProjectionMatrix webgpu_camera (nearPlane 1))) = 0"
proof -
  have v: "plane_applyMatrix4 (nearPlane 1) (matrixWorldInverse webgpu_camera) = nearPlane 1"
    by (simp add: webgpu_camera_def plane_identity)
  have pm: "projectionMatrix webgpu_camera
       = [1, 0, 0, 0, 0, 1, 0, 0, 0, 0, - 3 / 2, - 1, 0, 0, - 3 / 2, 0]"
    by (simp add: webgpu_camera_def makePerspective_def Let_def)
  have ob: "computeObliqueProjectionMatrix webgpu_camera (nearPlane 1)
       = [1, 0, 0, 0, 0, 1, 0, 0, 0, 0, - 2, - 1, 0, 0, - 3, 0]"
    unfolding oblique_near_plane [OF v] pm by (simp add: Let_def)
  have d0: "v_z (applyMatrix4 (Vector3 0 0 (- 1)) (projectionMatrix webgpu_camera)) = 0"
    unfolding pm by (simp add: Let_def)
  have d1: "v_z (applyMatrix4 (Vector3 0 0 (- 1))
            (computeObliqueProjectionMatrix webgpu_camera (nearPlane 1))) = - 1"
    unfolding ob by (simp add: Let_def)
  have d2: "v_z (applyMatrix4 (Vector3 0 0 (- 3 / 2))
            (computeObliqueProjectionMatrix webgpu_camera (nearPlane 1))) = 0"
    unfolding ob by (simp add: Let_def)
  from v pm ob d0 d1 d2 show ?thesis by simp
qed

text \<open>
  C6, as stated for every sequence of link calls, fails when a linked portal is linked
  again to a third one: after \<^verbatim>\<open>P0.link(P1); P0.link(P2)\<close> portal 1 still points to portal 0,
  which points to portal 2.
\<close>

theorem C6_relink_counterexample:
  "linkedPortal (link_all unlinked_store [(0, 1), (0, 2)] 1) = Some 0
   \<and> linkedPortal (link_all unlinked_store [(0, 1), (0, 2)] 0) = Some 2
   \<and> \<not> link_symmetric (link_all unlinked_store [(0, 1), (0, 2)])"
proof -
  have a: "linkedPortal (link_all unlinked_store [(0, 1), (0, 2)] 1) = Some 0"
    and b: "linkedPortal (link_all unlinked_store [(0, 1), (0, 2)] 0) = Some 2"
    by (simp_all add: linkedPortal_link)
  have "\<not> link_symmetric (link_all unlinked_store [(0, 1), (0, 2)])"
  proof
    assume "link_symmetric (link_all unlinked_store [(0, 1), (0, 2)])"
    with a have "linkedPortal (link_all unlinked_store [(0, 1), (0, 2)] 0) = Some 1"
      unfolding link_symmetric_def by blast
    with b show False by simp
  qed
  with a b show ?thesis by blast
qed

text \<open>
  C6, amended.  After \<^verbatim>\<open>A.link(B)\<close> the link of A is B and the link of B is A, whatever the
  state before; \<^verbatim>\<open>B.link(A)\<close> gives the same state; a second call changes nothing.  Link
  symmetry is kept by every sequence of link calls in which, at each call, each of the two
  portals is unlinked or already linked to the other.
\<close>

theorem C6_link_symmetry:
  "linkedPortal (link st a b a) = Some b \<and> linkedPortal (link st a b b) = Some a
   \<and> link st b a = link st a b
   \<and> link (link st a b) a b = link st a b
   \<and> (link_symmetric st \<and> linkable_all st xs \<longrightarrow> link_symmetric (link_all st xs))"
proof -
  have 1: "linkedPortal (link st a b a) = Some b \<and> linkedPortal (link st a b b) = Some a"
    by (simp add: linkedPortal_link)
  have 2: "link st b a = link st a b"
    by (auto simp: link_eq fun_eq_iff)
  have 3: "link (link st a b) a b = link st a b"
    by (auto simp: link_eq fun_eq_iff)
  have 4: "link_symmetric st \<and> linkable_all st xs \<longrightarrow> link_symmetric (link_all st xs)"
    by (simp add: link_all_symmetric)
  from 1 2 3 4 show ?thesis by blast
qed

theorem C6_link_symmetry_witness:
  "link_symmetric unlinked_store
   \<and> linkable_all unlinked_store [(0, 1), (2, 3), (1, 0)]
   \<and> link_symmetric (link_all unlinked_store [(0, 1), (2, 3), (1, 0)])
   \<and> linkedPortal (link_all unlinked_store [(0, 1), (2, 3), (1, 0)] 0) = Some 1
   \<and> linkedPortal (link_all unlinked_store [(0, 1), (2, 3), (1, 0)] 1) = Some 0"
proof -
  have s: "link_symmetric unlinked_store"
    by (simp add: link_symmetric_def unlinked_store_linked)
  have l: "linkable_all unlinked_store [(0, 1), (2, 3), (1, 0)]"
    by (simp add: linkable_def linkedPortal_link unlinked_store_linked)
  from C6_link_symmetry [of unlinked_store 0 1 "[(0, 1), (2, 3), (1, 0)]"] s l
  have r: "link_symmetric (link_all unlinked_store [(0, 1), (2, 3), (1, 0)])" by blast
  have v: "linkedPortal (link_all unlinked_store [(0, 1), (2, 3), (1, 0)] 0) = Some 1"
    "linkedPortal (link_all unlinked_store [(0, 1), (2, 3), (1, 0)] 1) = Some 0"
    by (simp_all add: linkedPortal_link)
  from s l r v show ?thesis by blast
qed

text \<open>
  C7, as stated, fails for the radius 0: an object on the plane has signed distance 0 and
  is not crossing.
\<close>

theorem C7_zero_radius_counterexample:
  "signedDistance (getPortalCrossingState (Vector3 0 0 0) 0 (Plane (Vector3 0 0 1) 0)) = 0
   \<and> \<not> crossing (getPortalCrossingState (Vector3 0 0 0) 0 (Plane (Vector3 0 0 1) 0))"
  by (simp add: getPortalCrossingState_def)

text \<open>
  C7, amended.  \<open>signedDistance\<close> is the distance of the object to the plane, \<open>inFront\<close> is
  \<open>max 0 (signedDistance + radius)\<close>, \<open>behind\<close> is \<open>max 0 (- signedDistance + radius)\<close> and
  \<open>crossing\<close> is \<open>|signedDistance| < radius\<close>.  A signed distance equal to the radius
  gives no crossing; a signed distance 0 with a positive radius gives a crossing with
  \<open>inFront = behind = radius\<close>.
\<close>

theorem C7_crossing_state:
  "signedDistance (getPortalCrossingState p r pl) = distanceToPoint pl p
   \<and> inFront (getPortalCrossingState p r pl) = max 0 (distanceToPoint pl p + r)
   \<and> behind (getPortalCrossingState p r pl) = max 0 (- distanceToPoint pl p + r)
   \<and> crossing (getPortalCrossingState p r pl) = (\<bar>distanceToPoint pl p\<bar> < r)
   \<and> (distanceToPoint pl p = r \<longrightarrow> \<not> crossing (getPortalCrossingState p r pl))
   \<and> (distanceToPoint pl p = 0 \<and> 0 < r \<longrightarrow>
        crossing (getPortalCrossingState p r pl)
        \<and> inFront (getPortalCrossingState p r pl) = r
        \<and> behind (getPortalCrossingState p r pl) = r)"
  by (auto simp: getPortalCrossingState_def Let_def)

theorem C7_crossing_state_witness:
  "distanceToPoint (Plane (Vector3 0 0 1) 0) (Vector3 0 0 2) = 2
   \<and> \<not> crossing (getPortalCrossingState (Vector3 0 0 2) 2 (Plane (Vector3 0 0 1) 0))
   \<and> distanceToPoint (Plane (Vector3 0 0 1) 0) (Vector3 5 1 0) = 0 \<and> (0::real) < 2
   \<and> crossing (getPortalCrossingState (Vector3 5 1 0) 2 (Plane (Vector3 0 0 1) 0))
   \<and> inFront (getPortalCrossingState (Vector3 5 1 0) 2 (Plane (Vector3 0 0 1) 0)) = 2
   \<and> behind (getPortalCrossingState (Vector3 5 1 0) 2 (Plane (Vector3 0 0 1) 0)) = 2"
  using C7_crossing_state [of "Vector3 0 0 2" 2 "Plane (Vector3 0 0 1) 0"]
        C7_crossing_state [of "Vector3 5 1 0" 2 "Plane (Vector3 0 0 1) 0"]
  by simp

text \<open>
  C9. For a portal with an owning scene, the stencil mask pass leaves the set of children of
  that scene as it was (and the list itself, when the mesh was a child exactly if its
  parent said so); it makes one draw call, during which the mask mesh is among the
  children drawn.
\<close>

theorem C9_mask_pass_children:
  assumes "scene (portals st p) = Some sc"
  shows "set (children (renderPortalStencil st p camera v) sc) = set (children st sc)
   \<and> (mesh_parent (portals st p) = Some sc \<or> PortalMesh p \<notin> set (children st sc) \<longrightarrow>
        children (renderPortalStencil st p camera v) sc = children st sc)
   \<and> calls (renderPortalStencil st p camera v) =
        calls st @ [MaskDraw sc
          (if mesh_parent (portals st p) = Some sc then children st sc
           else children st sc @ [PortalMesh p]) camera v]"
  using renderPortalStencil_children [OF assms] renderPortalStencil_children_list [OF assms]
    renderPortalStencil_calls [OF assms]
  by blast

theorem C9_mask_pass_children_witness:
  "scene (portals demo_state 0) = Some 0
   \<and> mesh_parent (portals demo_state 0) \<noteq> Some 0
   \<and> PortalMesh 0 \<notin> set (children demo_state 0)
   \<and> children (renderPortalStencil demo_state 0 viewer 1) 0 = [Mesh 0 [Mat 0]]
   \<and> children demo_state 0 = [Mesh 0 [Mat 0]]
   \<and> calls (renderPortalStencil demo_state 0 viewer 1)
       = [MaskDraw 0 [Mesh 0 [Mat 0], PortalMesh 0] viewer 1]"
proof -
  have h: "scene (portals demo_state 0) = Some 0"
    by (simp add: demo_state_def loop_store_0 loopA_fields)
  have f: "mesh_parent (portals demo_state 0) \<noteq> Some 0"
    "PortalMesh 0 \<notin> set (children demo_state 0)"
    "children demo_state 0 = [Mesh 0 [Mat 0]]" "calls demo_state = []"
    by (simp_all add: demo_state_def loop_store_0 loopA_fields demo_children_def)
  from C9_mask_pass_children [OF h, of viewer 1] f h show ?thesis by simp
qed

end
